theory Spec2Isabelle
  imports Complex_Main "HOL-Library.AList" "HOL-Library.Sublist"
begin

section \<open>Numbers\<close>

text \<open>
  JavaScript numbers are IEEE 754 doubles. A finite number is modelled by the real it denotes,
  and an arithmetic operation of the code (\<open>a + b\<close>, \<open>a - b\<close>, \<open>a * b\<close>, \<open>a / b\<close>) by the exact
  operation followed by \<open>fl\<close>, the rounding to the nearest double, ties to the even
  significand. So \<open>strength - 0.05\<close> is \<open>fl (strength v - fl (5 / 100))\<close>: the literal \<open>0.05\<close> is
  the double nearest to 5/100. \<open>Math.max\<close>, \<open>Math.min\<close>, \<open>Math.abs\<close> and the comparisons are exact
  on doubles, and \<open>Math.round x\<close> is exactly \<open>\<lfloor>x + 1/2\<rfloor>\<close> (nearest integer, ties upwards; the
  results \<open>-0\<close> and \<open>0\<close> are the same real). \<open>NaN\<close> only arises from \<open>parseFloat\<close>, whose result is
  an option.

  \<open>log2i n\<close> is \<open>\<lfloor>log\<^sub>2 n\<rfloor>\<close> for \<open>n > 0\<close>, \<open>expo x\<close> is \<open>\<lfloor>log\<^sub>2 x\<rfloor>\<close> for \<open>x > 0\<close>, \<open>rne y\<close> is the integer
  nearest to \<open>y\<close>, the even one of two, and \<open>fl x\<close> keeps 53 significant bits of \<open>x\<close>.
\<close>

function log2i :: "int \<Rightarrow> int" where
  "log2i n = (if n < 2 then 0 else 1 + log2i (n div 2))"
  by pat_completeness auto

termination
  by (relation "measure nat") auto

declare log2i.simps [simp del]

definition expo :: "real \<Rightarrow> int" where
  "expo x = (if 1 \<le> x then log2i \<lfloor>x\<rfloor> else - (1 + log2i (\<lceil>1 / x\<rceil> - 1)))"

definition rne :: "real \<Rightarrow> int" where
  "rne y = (let f = \<lfloor>y\<rfloor>; d = y - of_int f
            in if d < 1 / 2 then f else if 1 / 2 < d then f + 1
               else if even f then f else f + 1)"

definition fl :: "real \<Rightarrow> real" where
  "fl x = (if x = 0 then 0
           else (let a = \<bar>x\<bar>; q = 2 powi (expo a - 52)
                 in sgn x * (of_int (rne (a / q)) * q)))"


definition Math_round :: "real \<Rightarrow> real" where
  "Math_round x = of_int \<lfloor>x + 1 / 2\<rfloor>"

text \<open>\<open>Math.max(-20, Math.min(20, v))\<close>\<close>

definition clamp20 :: "real \<Rightarrow> real" where
  "clamp20 v = max (- 20) (min 20 v)"

text \<open>\<open>Math.round(v * 100) / 100\<close>\<close>

definition round2 :: "real \<Rightarrow> real" where
  "round2 v = fl (Math_round (fl (v * 100)) / 100)"

section \<open>Slot records\<close>

text \<open>The value of one slot widget: \<open>{ on, lora, strength, strengthTwo }\<close>; \<open>strengthTwo\<close> is
  \<open>null\<close> (here \<open>None\<close>) or a number.\<close>

record slot =
  on :: bool
  lora :: string
  strength :: real
  strengthTwo :: "real option"

text \<open>\<open>v.strengthTwo ?? v.strength\<close>\<close>

definition strengthTwo_or_strength :: "slot \<Rightarrow> real" where
  "strengthTwo_or_strength v = (case strengthTwo v of None \<Rightarrow> strength v | Some s \<Rightarrow> s)"

text \<open>The two keys a drag session or the inline input can address.\<close>

datatype skey = KStrength | KStrengthTwo

text \<open>\<open>{ ...value, [key]: x }\<close>\<close>

fun set_key :: "skey \<Rightarrow> real \<Rightarrow> slot \<Rightarrow> slot" where
  "set_key KStrength x v = v\<lparr>strength := x\<rparr>"
| "set_key KStrengthTwo x v = v\<lparr>strengthTwo := Some x\<rparr>"

section \<open>Zone layout\<close>

record zone =
  zx :: real
  zw :: real

record zones =
  toggle :: zone
  name_zone :: zone
  arrowLeft :: zone
  strengthNum :: zone
  arrowRight :: zone
  arrowLeft2 :: "zone option"
  strengthNum2 :: "zone option"
  arrowRight2 :: "zone option"

definition MARGIN :: real where "MARGIN = 15"
definition SWITCH_W :: real where "SWITCH_W = 22"
definition SWITCH_PAD :: real where "SWITCH_PAD = 4"
definition ARROW_W :: real where "ARROW_W = 14"
definition STRENGTH_NUM_W :: real where "STRENGTH_NUM_W = 36"

text \<open>\<open>loraZones(width, dual)\<close>. The layout, and the hit tests below, only add and subtract
  these integers to and from the width; these operations are written exactly, which is what
  the doubles give for every width below 4096 that is a multiple of \<open>2^-40\<close>.\<close>

definition loraZones :: "real \<Rightarrow> bool \<Rightarrow> zones" where
  "loraZones width dual =
    (let switchX = MARGIN + SWITCH_PAD;
         nameX = switchX + SWITCH_W + 8
     in if dual then
          (let col2End = width - MARGIN;
               col2ArrowRight = col2End - ARROW_W;
               col2Num = col2ArrowRight - STRENGTH_NUM_W;
               col2ArrowLeft = col2Num - ARROW_W;
               col1End = col2ArrowLeft - 2;
               col1ArrowRight = col1End - ARROW_W;
               col1Num = col1ArrowRight - STRENGTH_NUM_W;
               col1ArrowLeft = col1Num - ARROW_W;
               nameEnd = col1ArrowLeft - 4
           in \<lparr>toggle = \<lparr>zx = MARGIN, zw = nameX - MARGIN\<rparr>,
               name_zone = \<lparr>zx = nameX, zw = nameEnd - nameX\<rparr>,
               arrowLeft = \<lparr>zx = col1ArrowLeft, zw = ARROW_W\<rparr>,
               strengthNum = \<lparr>zx = col1Num, zw = STRENGTH_NUM_W\<rparr>,
               arrowRight = \<lparr>zx = col1ArrowRight, zw = ARROW_W\<rparr>,
               arrowLeft2 = Some \<lparr>zx = col2ArrowLeft, zw = ARROW_W\<rparr>,
               strengthNum2 = Some \<lparr>zx = col2Num, zw = STRENGTH_NUM_W\<rparr>,
               arrowRight2 = Some \<lparr>zx = col2ArrowRight, zw = ARROW_W\<rparr>\<rparr>)
        else
          (let arrowRightEnd = width - MARGIN;
               arrowRightX = arrowRightEnd - ARROW_W;
               numEnd = arrowRightX;
               numX = numEnd - STRENGTH_NUM_W;
               arrowLeftEnd = numX;
               arrowLeftX = arrowLeftEnd - ARROW_W;
               nameEnd = arrowLeftX - 4
           in \<lparr>toggle = \<lparr>zx = MARGIN, zw = nameX - MARGIN\<rparr>,
               name_zone = \<lparr>zx = nameX, zw = nameEnd - nameX\<rparr>,
               arrowLeft = \<lparr>zx = arrowLeftX, zw = ARROW_W\<rparr>,
               strengthNum = \<lparr>zx = numX, zw = STRENGTH_NUM_W\<rparr>,
               arrowRight = \<lparr>zx = arrowRightX, zw = ARROW_W\<rparr>,
               arrowLeft2 = None,
               strengthNum2 = None,
               arrowRight2 = None\<rparr>))"

text \<open>The hit test the handlers write out: \<open>x >= z.x && x < z.x + z.w\<close>.\<close>

definition inside :: "zone \<Rightarrow> real \<Rightarrow> bool" where
  "inside z x = (zx z \<le> x \<and> x < zx z + zw z)"

text \<open>\<open>dual && z.strengthNum2 && x >= z.strengthNum2.x && ...\<close>: a zone that may be missing.\<close>

definition inside_opt :: "zone option \<Rightarrow> real \<Rightarrow> bool" where
  "inside_opt zo x = (case zo of None \<Rightarrow> False | Some z \<Rightarrow> inside z x)"

section \<open>The slot widget's pointer handler\<close>

text \<open>
  A pointer event as the handler reads it: its type string, \<open>pos[0]\<close> (the x coordinate local
  to the node), \<open>event.canvasX ?? event.clientX\<close>, and the clock \<open>Date.now()\<close> at the moment the
  handler runs (milliseconds).
\<close>

record event =
  etype :: string
  pos_x :: real
  canvas_x :: real
  now :: int

text \<open>\<open>_dragState\<close>: \<open>{ key, startX, startVal }\<close> and the flag \<open>_dragged\<close> (missing reads as false).\<close>

record drag =
  dkey :: skey
  startX :: real
  startVal :: real
  dragged :: bool

text \<open>The slot widget: its value and the private fields the handler keeps on it.\<close>

record lora_widget =
  wval :: slot
  dragState :: "drag option"
  lastStrengthClick :: int
  lastStrengthClick2 :: int

text \<open>What a handler may ask of the page: the inline numeric overlay for a key
  (\<open>showStrengthInput\<close>) or the selection menu (\<open>showLoraDropdown\<close>).\<close>

datatype effect = ShowStrengthInput skey | ShowLoraDropdown

text \<open>The result of a handler call: the widget afterwards, the returned boolean (the event
  was consumed) and the effect requested, if any.\<close>

type_synonym outcome = "lora_widget \<times> bool \<times> effect option"

text \<open>Branch \<open>pointerdown\<close>/\<open>mousedown\<close> of \<open>w.mouse\<close>.\<close>

definition mouse_down :: "bool \<Rightarrow> zones \<Rightarrow> event \<Rightarrow> lora_widget \<Rightarrow> outcome" where
  "mouse_down dual z e w =
    (let x = pos_x e in
     if inside (strengthNum z) x then
       (w\<lparr>dragState := Some \<lparr>dkey = KStrength, startX = canvas_x e,
            startVal = strength (wval w), dragged = False\<rparr>\<rparr>, True, None)
     else if dual \<and> inside_opt (strengthNum2 z) x then
       (w\<lparr>dragState := Some \<lparr>dkey = KStrengthTwo, startX = canvas_x e,
            startVal = strengthTwo_or_strength (wval w), dragged = False\<rparr>\<rparr>, True, None)
     else (w\<lparr>dragState := None\<rparr>, True, None))"

text \<open>Branch \<open>pointermove\<close>/\<open>mousemove\<close>.\<close>

definition mouse_move :: "event \<Rightarrow> lora_widget \<Rightarrow> outcome" where
  "mouse_move e w =
    (case dragState w of
       Some d \<Rightarrow>
         (let dx = fl (canvas_x e - startX d) in
          if \<bar>dx\<bar> > 2 then
            (let delta = fl (dx * fl (1 / 100));
                 newVal = max (- 20) (min 20 (fl (startVal d + delta)))
             in (w\<lparr>wval := set_key (dkey d) (fl (Math_round (fl (newVal * 100)) / 100)) (wval w),
                   dragState := Some (d\<lparr>dragged := True\<rparr>)\<rparr>, True, None))
          else (w, True, None))
     | None \<Rightarrow> (w, False, None))"

text \<open>The click chain that a release reaches when no drag happened: toggle, column 1, column 2
  (dual mode), and the name zone last.\<close>

definition mouse_click :: "bool \<Rightarrow> zones \<Rightarrow> event \<Rightarrow> lora_widget \<Rightarrow> outcome" where
  "mouse_click dual z e w =
    (let x = pos_x e; v = wval w in
     if x < zx (toggle z) + zw (toggle z) then
       (w\<lparr>wval := v\<lparr>on := \<not> on v\<rparr>\<rparr>, True, None)
     else if inside (arrowLeft z) x then
       (let s = max (- 20) (fl (strength v - fl (5 / 100)))
        in (w\<lparr>wval := v\<lparr>strength := fl (Math_round (fl (s * 100)) / 100)\<rparr>\<rparr>, True, None))
     else if inside (strengthNum z) x then
       (if now e - lastStrengthClick w < 500
        then (w\<lparr>lastStrengthClick := 0\<rparr>, True, Some (ShowStrengthInput KStrength))
        else (w\<lparr>lastStrengthClick := now e\<rparr>, True, None))
     else if inside (arrowRight z) x then
       (let s = min 20 (fl (strength v + fl (5 / 100)))
        in (w\<lparr>wval := v\<lparr>strength := fl (Math_round (fl (s * 100)) / 100)\<rparr>\<rparr>, True, None))
     else if dual \<and> arrowLeft2 z \<noteq> None \<and> inside_opt (arrowLeft2 z) x then
       (let s2 = fl (strengthTwo_or_strength v - fl (5 / 100))
        in (w\<lparr>wval := v\<lparr>strengthTwo :=
                Some (fl (Math_round (fl (max (- 20) s2 * 100)) / 100))\<rparr>\<rparr>,
            True, None))
     else if dual \<and> arrowLeft2 z \<noteq> None \<and> inside_opt (strengthNum2 z) x then
       (if now e - lastStrengthClick2 w < 500
        then (w\<lparr>lastStrengthClick2 := 0\<rparr>, True, Some (ShowStrengthInput KStrengthTwo))
        else (w\<lparr>lastStrengthClick2 := now e\<rparr>, True, None))
     else if dual \<and> arrowLeft2 z \<noteq> None \<and> inside_opt (arrowRight2 z) x then
       (let s2 = fl (strengthTwo_or_strength v + fl (5 / 100))
        in (w\<lparr>wval := v\<lparr>strengthTwo :=
                Some (fl (Math_round (fl (min 20 s2 * 100)) / 100))\<rparr>\<rparr>,
            True, None))
     else (w, True, Some ShowLoraDropdown))"

text \<open>Everything after the move branch: a release that ends a drag is consumed; otherwise the
  drag state is dropped, other event types are ignored, a host double click opens the overlay
  on a number zone, and a release goes through the click chain.\<close>

definition mouse_up_or_dbl :: "bool \<Rightarrow> zones \<Rightarrow> event \<Rightarrow> lora_widget \<Rightarrow> outcome" where
  "mouse_up_or_dbl dual z e w =
    (let t = etype e; x = pos_x e;
         isUp = (t = ''pointerup'' \<or> t = ''mouseup'');
         isDblClick = (t = ''dblclick'')
     in if isUp \<and> (case dragState w of Some d \<Rightarrow> dragged d | None \<Rightarrow> False) then
          (w\<lparr>dragState := None\<rparr>, True, None)
        else
          (let w1 = w\<lparr>dragState := None\<rparr> in
           if \<not> isUp \<and> \<not> isDblClick then (w1, False, None)
           else if isDblClick then
             (if inside (strengthNum z) x then (w1, True, Some (ShowStrengthInput KStrength))
              else if dual \<and> inside_opt (strengthNum2 z) x
                then (w1, True, Some (ShowStrengthInput KStrengthTwo))
              else (w1, False, None))
           else mouse_click dual z e w1))"

text \<open>\<open>w.mouse(event, pos)\<close>, with \<open>dual = isDualMode(node)\<close> and \<open>width = node.size[0]\<close>.\<close>

definition mouse :: "bool \<Rightarrow> real \<Rightarrow> event \<Rightarrow> lora_widget \<Rightarrow> outcome" where
  "mouse dual width e w =
    (let t = etype e; z = loraZones width dual in
     if t = ''pointerdown'' \<or> t = ''mousedown'' then mouse_down dual z e w
     else if t = ''pointermove'' \<or> t = ''mousemove'' then mouse_move e w
     else mouse_up_or_dbl dual z e w)"

text \<open>\<open>apply()\<close> of the inline overlay opened for \<open>key\<close>: \<open>parsed\<close> is \<open>parseFloat(input.value)\<close>,
  \<open>None\<close> standing for \<open>NaN\<close>.\<close>

definition apply_input :: "skey \<Rightarrow> real option \<Rightarrow> lora_widget \<Rightarrow> lora_widget" where
  "apply_input k parsed w =
    (case parsed of
       None \<Rightarrow> w
     | Some v \<Rightarrow> w\<lparr>wval := set_key k (max (- 20) (min 20 v)) (wval w)\<rparr>)"

text \<open>The callback of the selection menu (\<open>showLoraDropdown\<close>).\<close>

definition select_lora :: "string \<Rightarrow> lora_widget \<Rightarrow> lora_widget" where
  "select_lora v w = w\<lparr>wval := (wval w)\<lparr>lora := v, on := (v \<noteq> ''None'')\<rparr>\<rparr>"


section \<open>JavaScript values and objects\<close>

text \<open>
  Widget values and saved values are JavaScript values. An object is an association list from
  keys to values in insertion order (an object read back from JSON has no duplicate keys);
  the spread-and-override \<open>{ ...o, k: v }\<close> is \<^const>\<open>AList.update\<close> (an existing key keeps its
  place, a new key goes last) and \<open>delete o.k\<close> is \<^const>\<open>AList.delete\<close>.
\<close>

datatype jsval =
  JUndef
| JNull
| JBool bool
| JNum real
| JStr string
| JArr "jsval list"
| JObj "(string \<times> jsval) list"

type_synonym object = "(string \<times> jsval) list"

text \<open>\<open>o.k\<close> on an object: a missing key reads \<open>undefined\<close>.\<close>

definition field :: "object \<Rightarrow> string \<Rightarrow> jsval" where
  "field obj k = (case map_of obj k of None \<Rightarrow> JUndef | Some v \<Rightarrow> v)"

text \<open>\<open>k in o\<close>\<close>

definition has_key :: "string \<Rightarrow> object \<Rightarrow> bool" where
  "has_key k obj = (k \<in> set (map fst obj))"

text \<open>\<open>v == null\<close>, the test behind \<open>??\<close> too.\<close>

fun nullish :: "jsval \<Rightarrow> bool" where
  "nullish JUndef = True"
| "nullish JNull = True"
| "nullish _ = False"

text \<open>Truthiness, as \<open>||\<close> and \<open>&&\<close> test it.\<close>

fun truthy :: "jsval \<Rightarrow> bool" where
  "truthy JUndef = False"
| "truthy JNull = False"
| "truthy (JBool b) = b"
| "truthy (JNum r) = (r \<noteq> 0)"
| "truthy (JStr s) = (s \<noteq> [])"
| "truthy (JArr _) = True"
| "truthy (JObj _) = True"

text \<open>Decimal numerals, as a template literal prints a non-negative integer.\<close>

definition digit :: "nat \<Rightarrow> char" where
  "digit d = ''0123456789'' ! d"

fun dec :: "nat \<Rightarrow> string" where
  "dec n = (if n < 10 then [digit n] else dec (n div 10) @ [digit (n mod 10)])"

declare dec.simps [simp del]

text \<open>
  The value of a slot widget is an object or, after a loader that only sets plain selector
  strings, a string (\<open>typeof w.value === "string"\<close>).
\<close>

datatype wvalue = Str string | Obj object

text \<open>\<open>{ ...v }\<close>: an object's own entries; a string spreads into its characters under the
  keys \<open>"0"\<close>, \<open>"1"\<close>, ...\<close>

fun spread :: "wvalue \<Rightarrow> object" where
  "spread (Obj obj) = obj"
| "spread (Str s) = map (\<lambda>i. (dec i, JStr [s ! i])) [0..<length s]"

text \<open>\<open>v.k\<close> for the keys the code reads (\<open>on\<close>, \<open>lora\<close>, \<open>strength\<close>, \<open>strengthTwo\<close>): a string has
  none of them.\<close>

fun wprop :: "wvalue \<Rightarrow> string \<Rightarrow> jsval" where
  "wprop (Obj obj) k = field obj k"
| "wprop (Str s) k = JUndef"

text \<open>A slot record as the object the code builds, in the key order of its literals.\<close>

definition obj_of_slot :: "slot \<Rightarrow> object" where
  "obj_of_slot v =
    [(''on'', JBool (on v)), (''lora'', JStr (lora v)), (''strength'', JNum (strength v)),
     (''strengthTwo'', (case strengthTwo v of None \<Rightarrow> JNull | Some s \<Rightarrow> JNum s))]"

text \<open>The slot record a widget value stands for, when it is one: \<open>on\<close> a boolean, \<open>lora\<close> a
  string, \<open>strength\<close> a number, \<open>strengthTwo\<close> a number, \<open>null\<close> or missing.\<close>

definition slot_of :: "wvalue \<Rightarrow> slot option" where
  "slot_of v =
    (case (wprop v ''on'', wprop v ''lora'', wprop v ''strength'', wprop v ''strengthTwo'') of
       (JBool b, JStr l, JNum s, JNum s2) \<Rightarrow>
         Some \<lparr>on = b, lora = l, strength = s, strengthTwo = Some s2\<rparr>
     | (JBool b, JStr l, JNum s, JNull) \<Rightarrow>
         Some \<lparr>on = b, lora = l, strength = s, strengthTwo = None\<rparr>
     | (JBool b, JStr l, JNum s, JUndef) \<Rightarrow>
         Some \<lparr>on = b, lora = l, strength = s, strengthTwo = None\<rparr>
     | _ \<Rightarrow> None)"

section \<open>The node and its widget list\<close>

text \<open>
  A widget of the node: a slot widget (\<open>_isLoraSlot\<close>) with its name and value, the toggle-all
  widget (\<open>_isToggleAll\<close>, named \<open>toggle_all\<close>), the Add button (\<open>_isAddLora\<close>, named \<open>add_lora\<close>),
  or any other widget, of which only the name matters here.
\<close>

datatype widget = LoraSlot string wvalue | ToggleAll | AddLora | Host string

fun wname :: "widget \<Rightarrow> string" where
  "wname (LoraSlot n v) = n"
| "wname ToggleAll = ''toggle_all''"
| "wname AddLora = ''add_lora''"
| "wname (Host n) = n"

text \<open>\<open>w._isLoraSlot\<close>\<close>

fun is_slot :: "widget \<Rightarrow> bool" where
  "is_slot (LoraSlot n v) = True"
| "is_slot _ = False"

text \<open>The filter of \<open>getLoraWidgets\<close>: \<open>w.name.startsWith("lora_") && w._isLoraSlot\<close>.\<close>

fun is_lora :: "widget \<Rightarrow> bool" where
  "is_lora (LoraSlot n v) = prefix ''lora_'' n"
| "is_lora _ = False"

record node =
  widgets :: "widget list"
  showStrengths :: string

definition isDualMode :: "node \<Rightarrow> bool" where
  "isDualMode nd = (showStrengths nd = ''Model & Clip'')"

definition getLoraWidgets :: "node \<Rightarrow> widget list" where
  "getLoraWidgets nd = filter is_lora (widgets nd)"

text \<open>The values of the slot widgets, in display order.\<close>

fun value_of :: "widget \<Rightarrow> wvalue" where
  "value_of (LoraSlot n v) = v"
| "value_of _ = Str []"

definition slot_values :: "node \<Rightarrow> wvalue list" where
  "slot_values nd = map value_of (getLoraWidgets nd)"

text \<open>\<open>for (const lw of getLoraWidgets(node)) lw.value = f(lw.value)\<close>\<close>

fun update_lora :: "(wvalue \<Rightarrow> wvalue) \<Rightarrow> widget \<Rightarrow> widget" where
  "update_lora f (LoraSlot n v) = (if prefix ''lora_'' n then LoraSlot n (f v) else LoraSlot n v)"
| "update_lora f w = w"

text \<open>\<open>createLoraWidget(node, index, initialValue)\<close>: \<open>addWidget\<close> pushes the new widget, named
  \<open>lora_<index>\<close>, at the end of the list. Every caller passes an object.\<close>

definition createLoraWidget :: "nat \<Rightarrow> object \<Rightarrow> node \<Rightarrow> node" where
  "createLoraWidget index val nd =
    nd\<lparr>widgets := widgets nd @ [LoraSlot (''lora_'' @ dec index) (Obj val)]\<rparr>"

definition createToggleAllWidget :: "node \<Rightarrow> node" where
  "createToggleAllWidget nd = nd\<lparr>widgets := widgets nd @ [ToggleAll]\<rparr>"

definition createAddLoraButton :: "node \<Rightarrow> node" where
  "createAddLoraButton nd = nd\<lparr>widgets := widgets nd @ [AddLora]\<rparr>"

definition addBaseModelWidget :: "node \<Rightarrow> node" where
  "addBaseModelWidget nd = nd\<lparr>widgets := widgets nd @ [Host ''base_model'']\<rparr>"

text \<open>The literal \<open>{ on: true, lora: "None", strength: 1.0, strengthTwo: null }\<close>.\<close>

definition default_slot :: object where
  "default_slot =
    [(''on'', JBool True), (''lora'', JStr ''None''), (''strength'', JNum 1),
     (''strengthTwo'', JNull)]"

section \<open>Toggle-all widget\<close>

text \<open>\<open>lw.value.on !== false\<close>\<close>

definition enabled :: "wvalue \<Rightarrow> bool" where
  "enabled v = (wprop v ''on'' \<noteq> JBool False)"

text \<open>\<open>loraW.length > 0 && loraW.every(lw => lw.value.on !== false)\<close>\<close>

definition allOn :: "node \<Rightarrow> bool" where
  "allOn nd = (let loraW = getLoraWidgets nd
               in length loraW > 0 \<and> list_all (\<lambda>lw. enabled (value_of lw)) loraW)"

text \<open>\<open>loraW.some(lw => lw.value.on !== false)\<close>\<close>

definition someOn :: "node \<Rightarrow> bool" where
  "someOn nd = list_ex (\<lambda>lw. enabled (value_of lw)) (getLoraWidgets nd)"

text \<open>The three looks of \<open>drawSwitch(ctx, x, y, on, partial)\<close>: its fill is chosen by
  \<open>on ? ... : partial ? ... : ...\<close>.\<close>

datatype switch_look = SwitchOn | SwitchPartial | SwitchOff

definition drawSwitch :: "bool \<Rightarrow> bool \<Rightarrow> switch_look" where
  "drawSwitch on_arg partial = (if on_arg then SwitchOn else if partial then SwitchPartial else SwitchOff)"

text \<open>The switch that the toggle-all widget's \<open>draw\<close> paints:
  \<open>drawSwitch(ctx, switchX, switchY, allOn, !allOn && someOn)\<close>.\<close>

definition toggle_all_draw :: "node \<Rightarrow> switch_look" where
  "toggle_all_draw nd = drawSwitch (allOn nd) (\<not> allOn nd \<and> someOn nd)"

text \<open>The toggle-all widget's \<open>mouse\<close>: the node afterwards and the returned boolean.\<close>

definition toggle_all_mouse :: "string \<Rightarrow> node \<Rightarrow> node \<times> bool" where
  "toggle_all_mouse t nd =
    (if t = ''pointerdown'' \<or> t = ''mousedown'' then (nd, True)
     else if t \<noteq> ''pointerup'' \<and> t \<noteq> ''mouseup'' then (nd, False)
     else
       (let newState = \<not> allOn nd
        in (nd\<lparr>widgets :=
                 map (update_lora (\<lambda>v. Obj (AList.update ''on'' (JBool newState) (spread v))))
                   (widgets nd)\<rparr>, True)))"

section \<open>Mode transitions\<close>

text \<open>The handler \<open>node.onPropertyChanged(name, value, prevValue)\<close> installed by
  \<open>setupLoraNode\<close>; the host has stored the property before it calls the handler, and the
  handler itself only rewrites slot values. A handler installed before it, if any, is the
  host's and is taken to leave the widget values alone.\<close>

definition onPropertyChanged :: "string \<Rightarrow> string \<Rightarrow> node \<Rightarrow> node" where
  "onPropertyChanged name val nd =
    (if name = ''showStrengths'' then
       (if val = ''Model & Clip'' then
          nd\<lparr>widgets :=
               map (update_lora (\<lambda>v.
                      if nullish (wprop v ''strengthTwo'')
                      then Obj (AList.update ''strengthTwo'' (wprop v ''strength'') (spread v))
                      else v))
                 (widgets nd)\<rparr>
        else
          nd\<lparr>widgets :=
               map (update_lora (\<lambda>v. Obj (AList.update ''strengthTwo'' JNull (spread v))))
                 (widgets nd)\<rparr>)
     else nd)"

section \<open>Serialization and restore\<close>

text \<open>\<open>w.serializeValue()\<close>, with \<open>dual = isDualMode(node)\<close>.\<close>

definition serializeValue :: "bool \<Rightarrow> wvalue \<Rightarrow> object" where
  "serializeValue dual v =
    (let obj = spread v in if \<not> dual then AList.delete ''strengthTwo'' obj else obj)"

text \<open>What \<open>configure\<close> reads of its argument: \<open>info.properties?.showStrengths\<close> (\<open>None\<close> when
  missing) and \<open>info.widgets_values || []\<close>.\<close>

record info =
  info_showStrengths :: "string option"
  widgets_values :: "jsval list"

text \<open>The filter \<open>v && typeof v === "object" && "lora" in v\<close>: \<open>null\<close> is falsy, and an array
  read back from JSON has no key \<open>lora\<close>.\<close>

fun slot_shaped :: "jsval \<Rightarrow> bool" where
  "slot_shaped (JObj obj) = has_key ''lora'' obj"
| "slot_shaped _ = False"

text \<open>\<open>sv.k\<close> on a saved value that passed the filter.\<close>

fun jprop :: "jsval \<Rightarrow> string \<Rightarrow> jsval" where
  "jprop (JObj obj) k = field obj k"
| "jprop _ k = JUndef"

text \<open>The object that \<open>configure\<close> builds from a saved slot value \<open>sv\<close>.\<close>

definition restored_slot :: "jsval \<Rightarrow> object" where
  "restored_slot sv =
    [(''on'', JBool (jprop sv ''on'' \<noteq> JBool False)),
     (''lora'', (if truthy (jprop sv ''lora'') then jprop sv ''lora'' else JStr ''None'')),
     (''strength'', (case jprop sv ''strength'' of JNum r \<Rightarrow> JNum r | _ \<Rightarrow> JNum 1)),
     (''strengthTwo'', (if nullish (jprop sv ''strengthTwo'') then JNull
                        else jprop sv ''strengthTwo''))]"

text \<open>The loop \<open>for (let i = 0; i < loraSlotValues.length; i++) createLoraWidget(node, i + 1, ...)\<close>,
  from index \<open>i\<close> on.\<close>

fun restore_slots :: "nat \<Rightarrow> jsval list \<Rightarrow> node \<Rightarrow> node" where
  "restore_slots i [] nd = nd"
| "restore_slots i (sv # svs) nd =
     restore_slots (i + 1) svs (createLoraWidget (i + 1) (restored_slot sv) nd)"

text \<open>The widgets that \<open>configure\<close> strips: the dynamic ones.\<close>

fun dynamic :: "widget \<Rightarrow> bool" where
  "dynamic (Host n) = False"
| "dynamic _ = True"

text \<open>
  \<open>node.configure(info)\<close> as \<open>setupLoraNode\<close> installs it. The host's own \<open>configure\<close>, called in
  the middle, runs while the node has no slot widget and is taken to leave the widget list and
  the mode as they are.
\<close>

definition configure :: "info \<Rightarrow> node \<Rightarrow> node" where
  "configure saved nd =
    (let trailingWidgets =
           filter (\<lambda>w. \<not> dynamic w \<and> (wname w = ''mm_auth'' \<or> wname w = ''mm_refresh''))
             (widgets nd);
         nd1 = nd\<lparr>widgets :=
                 filter (\<lambda>w. \<not> dynamic w \<and> \<not> (wname w = ''mm_auth'' \<or> wname w = ''mm_refresh''))
                   (widgets nd)\<rparr>;
         nd2 = (case info_showStrengths saved of
                  Some s \<Rightarrow> if s \<noteq> [] then nd1\<lparr>showStrengths := s\<rparr> else nd1
                | None \<Rightarrow> nd1);
         savedValues = widgets_values saved;
         loraSlotValues = filter slot_shaped savedValues;
         nd3 = createToggleAllWidget nd2;
         nd4 = (if length loraSlotValues > 0 then restore_slots 0 loraSlotValues nd3
                else createLoraWidget 1 default_slot nd3);
         nd5 = createAddLoraButton nd4
     in nd5\<lparr>widgets := widgets nd5 @ trailingWidgets\<rparr>)"

section \<open>Node creation\<close>

definition setupLoraNode :: "node \<Rightarrow> node" where
  "setupLoraNode nd =
    (let nd1 = (if showStrengths nd = [] then nd\<lparr>showStrengths := ''Single''\<rparr> else nd);
         nd2 = nd1\<lparr>widgets :=
                 filter (\<lambda>w. wname w = ''model'' \<or> wname w = ''clip'' \<or>
                             wname w = ''mm_auth'' \<or> wname w = ''mm_refresh'')
                   (widgets nd1)\<rparr>
     in createAddLoraButton
          (createLoraWidget 1 default_slot (createToggleAllWidget (addBaseModelWidget nd2))))"

text \<open>
  \<open>onNodeCreated\<close> for the multi-slot node: the host has created the node with its own widgets
  (given by their names) and the prototype's property \<open>showStrengths = "Single"\<close>; after
  \<open>setupLoraNode\<close> the auth button (renamed at once after the connection state) and the refresh
  button are added.
\<close>

definition onNodeCreated :: "bool \<Rightarrow> string list \<Rightarrow> node" where
  "onNodeCreated is_connected host_widgets =
    (let nd = setupLoraNode \<lparr>widgets = map Host host_widgets, showStrengths = ''Single''\<rparr>
     in nd\<lparr>widgets := widgets nd @
            [Host (if is_connected then ''Model Manager: Connected''
                   else ''Connect to Model Manager''),
             Host ''mm_refresh'']\<rparr>)"

text \<open>\<open>typeof w.value === "string"\<close> on a slot widget.\<close>

fun api_slot :: "widget \<Rightarrow> bool" where
  "api_slot (LoraSlot n (Str s)) = True"
| "api_slot _ = False"

text \<open>The body of the loop over \<open>apiSlots\<close>.\<close>

fun upgrade_widget :: "bool \<Rightarrow> widget \<Rightarrow> widget" where
  "upgrade_widget dual (LoraSlot n (Str name)) =
     LoraSlot n (Obj [(''on'', JBool (name \<noteq> ''None'')), (''lora'', JStr name),
                      (''strength'', JNum 1),
                      (''strengthTwo'', (if dual then JNum 1 else JNull))])"
| "upgrade_widget dual w = w"

text \<open>The upgrade pass that \<open>onNodeCreated\<close> schedules with \<open>setTimeout(..., 16)\<close>.\<close>

definition api_upgrade :: "node \<Rightarrow> node" where
  "api_upgrade nd =
    (let hasLoraSlots = list_ex is_slot (widgets nd) in
     if \<not> hasLoraSlots then nd
     else
       (let apiSlots = filter api_slot (widgets nd) in
        if length apiSlots > 0
        then nd\<lparr>widgets := map (upgrade_widget (isDualMode nd)) (widgets nd)\<rparr>
        else nd))"

section \<open>Add, remove, move, renumber\<close>

text \<open>\<open>renumberLoraWidgets\<close>: the \<open>i\<close>-th widget of \<open>getLoraWidgets(node)\<close> is named
  \<open>lora_<i+1>\<close>; the function walks the widget list with the count \<open>i\<close> of slot widgets passed.\<close>

fun renumber_from :: "nat \<Rightarrow> widget list \<Rightarrow> widget list" where
  "renumber_from i [] = []"
| "renumber_from i (LoraSlot n v # ws) =
     (if prefix ''lora_'' n then LoraSlot (''lora_'' @ dec (i + 1)) v # renumber_from (i + 1) ws
      else LoraSlot n v # renumber_from i ws)"
| "renumber_from i (w # ws) = w # renumber_from i ws"

definition renumberLoraWidgets :: "node \<Rightarrow> node" where
  "renumberLoraWidgets nd = nd\<lparr>widgets := renumber_from 0 (widgets nd)\<rparr>"

text \<open>\<open>node.widgets.indexOf(loraW[k])\<close>: the position in the widget list of the \<open>k\<close>-th widget
  that \<open>getLoraWidgets\<close> returns (the source finds the object by identity).\<close>

fun lora_index :: "nat \<Rightarrow> widget list \<Rightarrow> nat option" where
  "lora_index k [] = None"
| "lora_index k (w # ws) =
     (if is_lora w then (if k = 0 then Some 0 else map_option Suc (lora_index (k - 1) ws))
      else map_option Suc (lora_index k ws))"

text \<open>\<open>widgets.indexOf(btn)\<close>, \<open>btn\<close> being the node's Add button.\<close>

fun button_index :: "widget list \<Rightarrow> nat option" where
  "button_index [] = None"
| "button_index (w # ws) = (if w = AddLora then Some 0 else map_option Suc (button_index ws))"

text \<open>
  \<open>addLoraSlot(node, btn, loraName)\<close>, with \<open>btnIdx = widgets.indexOf(btn)\<close>: the new widget is
  pushed last (so \<open>newWIdx\<close> is the old length) and then moved in front of the button.
\<close>

definition addLoraSlot :: "nat \<Rightarrow> string \<Rightarrow> node \<Rightarrow> node" where
  "addLoraSlot btnIdx loraName nd =
    (let loraW = getLoraWidgets nd;
         newIndex = length loraW + 1;
         dual = isDualMode nd;
         val = [(''on'', JBool (loraName \<noteq> ''None'')), (''lora'', JStr loraName),
                (''strength'', JNum 1), (''strengthTwo'', (if dual then JNum 1 else JNull))];
         newWIdx = length (widgets nd);
         nd1 = createLoraWidget newIndex val nd;
         newW = last (widgets nd1)
     in if newWIdx > btnIdx
        then nd1\<lparr>widgets := take btnIdx (widgets nd) @ [newW] @ drop btnIdx (widgets nd)\<rparr>
        else nd1)"

text \<open>The structural operations a user can trigger: the Add button's callback with the chosen
  selection, and the context-menu entries of the slot under the pointer.\<close>

datatype op = Add string | Remove nat | MoveUp nat | MoveDown nat

text \<open>The Add button exists on the node, or there is nothing to click.\<close>

definition op_add :: "string \<Rightarrow> node \<Rightarrow> node" where
  "op_add loraName nd =
    (case button_index (widgets nd) of
       None \<Rightarrow> nd
     | Some btnIdx \<Rightarrow> addLoraSlot btnIdx loraName nd)"

text \<open>\<open>Remove LoRA\<close> of slot \<open>slotIdx\<close>; the menu has slot entries only when the pointer is over
  a slot (\<open>0 \<le> slotIdx < loraW.length\<close>).\<close>

definition op_remove :: "nat \<Rightarrow> node \<Rightarrow> node" where
  "op_remove slotIdx nd =
    (if slotIdx < length (getLoraWidgets nd) then
       (case lora_index slotIdx (widgets nd) of
          Some idx \<Rightarrow>
            renumberLoraWidgets
              (nd\<lparr>widgets := take idx (widgets nd) @ drop (idx + 1) (widgets nd)\<rparr>)
        | None \<Rightarrow> renumberLoraWidgets nd)
     else nd)"

text \<open>The swap \<open>[widgets[aIdx], widgets[bIdx]] = [widgets[bIdx], widgets[aIdx]]\<close> of the slots
  \<open>k\<close> and \<open>k + 1\<close>, then the renumbering. Both slots exist whenever the menu offers the
  move, so both positions are found.\<close>

definition swap_slots :: "nat \<Rightarrow> node \<Rightarrow> node" where
  "swap_slots k nd =
    (let ws = widgets nd in
     case (lora_index k ws, lora_index (k + 1) ws) of
       (Some aIdx, Some bIdx) \<Rightarrow>
         renumberLoraWidgets (nd\<lparr>widgets := ws[aIdx := ws ! bIdx, bIdx := ws ! aIdx]\<rparr>)
     | _ \<Rightarrow> nd)"

text \<open>\<open>Move LoRA Up\<close> is offered when \<open>slotIdx > 0\<close>, \<open>Move LoRA Down\<close> when
  \<open>slotIdx < loraW.length - 1\<close>.\<close>

definition op_move_up :: "nat \<Rightarrow> node \<Rightarrow> node" where
  "op_move_up slotIdx nd =
    (if 0 < slotIdx \<and> slotIdx < length (getLoraWidgets nd) then swap_slots (slotIdx - 1) nd
     else nd)"

definition op_move_down :: "nat \<Rightarrow> node \<Rightarrow> node" where
  "op_move_down slotIdx nd =
    (if slotIdx + 1 < length (getLoraWidgets nd) then swap_slots slotIdx nd else nd)"

fun apply_op :: "op \<Rightarrow> node \<Rightarrow> node" where
  "apply_op (Add loraName) nd = op_add loraName nd"
| "apply_op (Remove k) nd = op_remove k nd"
| "apply_op (MoveUp k) nd = op_move_up k nd"
| "apply_op (MoveDown k) nd = op_move_down k nd"

fun apply_ops :: "op list \<Rightarrow> node \<Rightarrow> node" where
  "apply_ops [] nd = nd"
| "apply_ops (x # xs) nd = apply_ops xs (apply_op x nd)"

text \<open>The names \<open>lora_1\<close>, ..., \<open>lora_N\<close>.\<close>

definition lora_names :: "nat \<Rightarrow> string list" where
  "lora_names N = map (\<lambda>i. ''lora_'' @ dec (i + 1)) [0..<N]"

section \<open>Sequences of interactions with one slot widget\<close>

text \<open>A pointer event handled in some mode and at some node width, a commit of the inline
  overlay for a key, or a choice in the selection menu.\<close>

datatype interaction = Mouse bool real event | Commit skey "real option" | Select string

fun interact :: "interaction \<Rightarrow> lora_widget \<Rightarrow> lora_widget" where
  "interact (Mouse dual width e) w = fst (mouse dual width e w)"
| "interact (Commit k parsed) w = apply_input k parsed w"
| "interact (Select v) w = select_lora v w"

fun interact_all :: "interaction list \<Rightarrow> lora_widget \<Rightarrow> lora_widget" where
  "interact_all [] w = w"
| "interact_all (i # is) w = interact_all is (interact i w)"

text \<open>The range \<open>[-20, 20]\<close> for one number and for the strengths of a slot.\<close>

definition in_range :: "real \<Rightarrow> bool" where
  "in_range x = (- 20 \<le> x \<and> x \<le> 20)"

definition slot_in_range :: "slot \<Rightarrow> bool" where
  "slot_in_range v =
    (in_range (strength v) \<and> (case strengthTwo v of None \<Rightarrow> True | Some s \<Rightarrow> in_range s))"


text \<open>The strength stored under a key.\<close>

fun key_value :: "skey \<Rightarrow> slot \<Rightarrow> real option" where
  "key_value KStrength v = Some (strength v)"
| "key_value KStrengthTwo v = strengthTwo v"

section \<open>Vocabulary for the statements about the pointer handler\<close>

text \<open>A press or release at \<open>x\<close> is on the number zone of key \<open>k\<close>: column 1 for \<open>strength\<close>,
  column 2 (dual mode only) for \<open>strengthTwo\<close>.\<close>

definition on_number_zone :: "bool \<Rightarrow> real \<Rightarrow> skey \<Rightarrow> real \<Rightarrow> bool" where
  "on_number_zone dual width k x =
    (let z = loraZones width dual in
     case k of KStrength \<Rightarrow> inside (strengthNum z) x
             | KStrengthTwo \<Rightarrow> dual \<and> inside_opt (strengthNum2 z) x)"

text \<open>The first test of the click chain: \<open>x < z.toggle.x + z.toggle.w\<close>.\<close>

definition in_toggle_zone :: "bool \<Rightarrow> real \<Rightarrow> real \<Rightarrow> bool" where
  "in_toggle_zone dual width x =
    (let z = loraZones width dual in x < zx (toggle z) + zw (toggle z))"




text \<open>The event types the handler tells apart.\<close>

definition is_down :: "event \<Rightarrow> bool" where
  "is_down e = (etype e = ''pointerdown'' \<or> etype e = ''mousedown'')"

definition is_move :: "event \<Rightarrow> bool" where
  "is_move e = (etype e = ''pointermove'' \<or> etype e = ''mousemove'')"

definition is_up :: "event \<Rightarrow> bool" where
  "is_up e = (etype e = ''pointerup'' \<or> etype e = ''mouseup'')"

text \<open>The displacement test \<open>Math.abs(dx) > 2\<close> against the start \<open>x0\<close>, with \<open>dx\<close> the difference
  the code computes, and the value a move beyond the threshold stores:
  \<open>Math.round(clamp(startVal + dx * 0.01) * 100) / 100\<close>, every operation rounded.\<close>

definition exceeds :: "real \<Rightarrow> event \<Rightarrow> bool" where
  "exceeds x0 e = (\<bar>fl (canvas_x e - x0)\<bar> > 2)"

definition drag_value :: "real \<Rightarrow> real \<Rightarrow> event \<Rightarrow> real" where
  "drag_value x0 v0 e =
     round2 (clamp20 (fl (v0 + fl (fl (canvas_x e - x0) * fl (1 / 100)))))"

text \<open>Sample inputs: a widget at rest holding the selection \<open>123:foo\<close>, and an event on a node
  whose left edge is at canvas coordinate 1000.\<close>

definition ex_widget :: "real \<Rightarrow> real option \<Rightarrow> lora_widget" where
  "ex_widget s s2 =
    \<lparr>wval = \<lparr>on = True, lora = ''123:foo'', strength = s, strengthTwo = s2\<rparr>,
     dragState = None, lastStrengthClick = 0, lastStrengthClick2 = 0\<rparr>"

definition ex_event :: "string \<Rightarrow> real \<Rightarrow> int \<Rightarrow> event" where
  "ex_event t x ms = \<lparr>etype = t, pos_x = x, canvas_x = 1000 + x, now = ms\<rparr>"

section \<open>Vocabulary for the statements about the node\<close>

text \<open>Two slot values agree on \<open>on\<close>, \<open>lora\<close> and \<open>strength\<close>.\<close>

definition same_core :: "wvalue \<Rightarrow> wvalue \<Rightarrow> bool" where
  "same_core v v' =
    (wprop v' ''on'' = wprop v ''on'' \<and> wprop v' ''lora'' = wprop v ''lora'' \<and>
     wprop v' ''strength'' = wprop v ''strength'')"

text \<open>The slot widgets \<open>configure\<close> creates from the slot-shaped saved values: one per value,
  numbered from 1, or the single default slot when there is none.\<close>

definition restored_widgets :: "jsval list \<Rightarrow> widget list" where
  "restored_widgets svs =
    (if svs = [] then [LoraSlot (''lora_'' @ dec 1) (Obj default_slot)]
     else map (\<lambda>(i, sv). LoraSlot (''lora_'' @ dec (i + 1)) (Obj (restored_slot sv)))
            (enumerate 0 svs))"

text \<open>
  Modelled from the spec: the host's save, which is not part of this repository. It emits the
  mode property and, per slot widget, the result of the widget's serialization hook.
\<close>

definition save_node :: "node \<Rightarrow> info" where
  "save_node nd =
    \<lparr>info_showStrengths = Some (showStrengths nd),
     widgets_values = map (\<lambda>v. JObj (serializeValue (isDualMode nd) v)) (slot_values nd)\<rparr>"

text \<open>A press and release on the toggle-all widget.\<close>

definition click_toggle_all :: "node \<Rightarrow> node" where
  "click_toggle_all nd =
     fst (toggle_all_mouse ''pointerup'' (fst (toggle_all_mouse ''pointerdown'' nd)))"

text \<open>Sample nodes with one or two slot widgets, and a sample slot value without
  \<open>strengthTwo\<close>.\<close>

definition one_slot :: "wvalue \<Rightarrow> string \<Rightarrow> node" where
  "one_slot a mode =
    \<lparr>widgets = [Host ''base_model'', ToggleAll, LoraSlot ''lora_1'' a, AddLora,
                Host ''mm_refresh''],
     showStrengths = mode\<rparr>"

definition two_slots :: "wvalue \<Rightarrow> wvalue \<Rightarrow> string \<Rightarrow> node" where
  "two_slots a b mode =
    \<lparr>widgets = [Host ''base_model'', ToggleAll, LoraSlot ''lora_1'' a, LoraSlot ''lora_2'' b,
                AddLora, Host ''mm_refresh''],
     showStrengths = mode\<rparr>"

definition ex_slot :: "bool \<Rightarrow> string \<Rightarrow> real \<Rightarrow> wvalue" where
  "ex_slot b l s = Obj (obj_of_slot \<lparr>on = b, lora = l, strength = s, strengthTwo = None\<rparr>)"

section \<open>The numbering invariant\<close>

text \<open>Every slot widget passes the name test of \<open>getLoraWidgets\<close>; no slot widget stands at or
  after the first Add button; a widget list is well numbered when both hold and its slot
  widgets are named \<open>lora_1\<close>, ..., \<open>lora_N\<close> in order.\<close>

definition all_lora :: "widget list \<Rightarrow> bool" where
  "all_lora ws = list_all (\<lambda>w. is_slot w \<longrightarrow> is_lora w) ws"

definition slots_before_button :: "widget list \<Rightarrow> bool" where
  "slots_before_button ws = (filter is_slot (dropWhile (\<lambda>w. w \<noteq> AddLora) ws) = [])"

definition well_numbered :: "widget list \<Rightarrow> bool" where
  "well_numbered ws =
    (all_lora ws \<and> map wname (filter is_lora ws) = lora_names (length (filter is_lora ws)) \<and>
     slots_before_button ws)"

section \<open>Unfolding rules\<close>


lemmas ex_defs = ex_widget_def ex_event_def is_down_def is_move_def is_up_def on_number_zone_def
  in_toggle_zone_def exceeds_def drag_value_def round2_def clamp20_def Math_round_def

section \<open>Rounding to a double\<close>

text \<open>\<open>log2i\<close> and \<open>expo\<close> are the integer logarithms, so \<open>fl\<close> rounds within the binade of its
  argument; it is monotone, and it commutes with negation.\<close>

lemma log2i_nonneg: "0 \<le> log2i n"
proof (induction n rule: log2i.induct)
  case (1 n)
  show ?case
  proof (cases "n < 2")
    case True
    then show ?thesis by (simp add: log2i.simps)
  next
    case False
    from 1[OF False] show ?thesis using False by (subst log2i.simps) simp
  qed
qed

lemma log2i_bounds: "0 < n \<Longrightarrow> 2 powi log2i n \<le> (of_int n :: real) \<and> of_int n + 1 \<le> (2 powi (log2i n + 1) :: real)"
proof (induction n rule: log2i.induct)
  case (1 n)
  show ?case
  proof (cases "n < 2")
    case True
    with 1(2) have "n = 1" by simp
    then show ?thesis by (simp add: log2i.simps)
  next
    case False
    then have "0 < n div 2" by simp
    from 1(1)[OF False this] have a: "2 powi log2i (n div 2) \<le> (of_int (n div 2) :: real)"
      and b: "of_int (n div 2) + 1 \<le> (2 powi (log2i (n div 2) + 1) :: real)" by simp_all
    have l: "log2i n = log2i (n div 2) + 1" using False by (subst log2i.simps) simp
    have i: "2 * (n div 2) \<le> n" "n + 1 \<le> 2 * (n div 2) + 2" by linarith+
    have "(of_int (2 * (n div 2)) :: real) \<le> of_int n" using i(1) by (simp only: of_int_le_iff)
    then have d1: "2 * (of_int (n div 2) :: real) \<le> of_int n"
      by (simp only: of_int_mult of_int_numeral)
    have "(of_int (n + 1) :: real) \<le> of_int (2 * (n div 2) + 2)"
      using i(2) by (simp only: of_int_le_iff)
    then have d2: "(of_int n :: real) + 1 \<le> 2 * of_int (n div 2) + 2"
      by (simp only: of_int_mult of_int_add of_int_numeral of_int_1)
    have p: "(2::real) powi (log2i (n div 2) + 1) = 2 * 2 powi log2i (n div 2)"
         "(2::real) powi (log2i (n div 2) + 1 + 1) = 2 * 2 powi (log2i (n div 2) + 1)"
      by (simp_all add: power_int_add)
    from a b d1 d2 show ?thesis unfolding l p by linarith
  qed
qed

lemma expo_bounds:
  assumes "0 < x"
  shows "2 powi expo x \<le> x \<and> x < 2 powi (expo x + 1)"
proof (cases "1 \<le> x")
  case True
  define n where "n = \<lfloor>x\<rfloor>"
  have n: "0 < n" "of_int n \<le> x" "x < of_int n + 1" using True by (simp_all add: n_def)
  have e: "expo x = log2i n" using True by (simp add: expo_def n_def)
  from log2i_bounds[OF n(1)] n(2,3) show ?thesis unfolding e by linarith
next
  case False
  define y where "y = 1 / x"
  have y: "1 < y" using False assms by (simp add: y_def)
  define n where "n = \<lceil>y\<rceil> - 1"
  have c: "\<lceil>y\<rceil> \<ge> 2" using y by linarith
  have n: "0 < n" "of_int n < y" "y \<le> of_int n + 1" using c by (simp_all add: n_def) linarith+
  define L where "L = log2i n"
  have e: "expo x = - (1 + L)" using False by (simp add: expo_def n_def y_def L_def)
  from log2i_bounds[OF n(1)] n(2,3) have ylo: "2 powi L < y" and yhi: "y \<le> 2 powi (L + 1)"
    unfolding L_def by linarith+
  have x: "x = 1 / y" using assms by (simp add: y_def)
  have p1: "(2::real) powi expo x = 1 / 2 powi (L + 1)"
    unfolding e by (simp only: power_int_minus_divide add.commute)
  have "expo x + 1 = - L" by (simp add: e)
  then have p2: "(2::real) powi (expo x + 1) = 1 / 2 powi L"
    by (simp add: power_int_minus_divide)
  have "1 / 2 powi (L + 1) \<le> 1 / y" using yhi y by (intro divide_left_mono) simp_all
  then have "1 / 2 powi (L + 1) \<le> x" by (simp only: x [symmetric])
  then have 1: "2 powi expo x \<le> x" by (simp only: p1)
  have "1 / y < 1 / 2 powi L" using ylo y by (intro divide_strict_left_mono) simp_all
  then have "x < 1 / 2 powi L" by (simp only: x [symmetric])
  then have 2: "x < 2 powi (expo x + 1)" by (simp only: p2)
  from 1 2 show ?thesis by blast
qed

lemma expo_mono:
  assumes "0 < x" "x \<le> y"
  shows "expo x \<le> expo y"
proof (rule ccontr)
  assume "\<not> expo x \<le> expo y"
  then have "expo y + 1 \<le> expo x" by simp
  then have "(2::real) powi (expo y + 1) \<le> 2 powi expo x" by (rule power_int_increasing) simp
  moreover have "y < 2 powi (expo y + 1)" using expo_bounds[of y] assms by simp
  moreover have "2 powi expo x \<le> x" using expo_bounds[OF assms(1)] by simp
  ultimately show False using assms(2) by linarith
qed

lemma rne_bounds: "of_int \<lfloor>y\<rfloor> \<le> (of_int (rne y) :: real) \<and> rne y \<le> \<lfloor>y\<rfloor> + 1"
  by (simp add: rne_def Let_def)

lemma rne_int: "rne (of_int n) = n"
  by (simp add: rne_def)

lemma rne_mono:
  assumes "x \<le> y"
  shows "rne x \<le> rne y"
proof (cases "\<lfloor>x\<rfloor> = \<lfloor>y\<rfloor>")
  case True
  have "x - of_int \<lfloor>y\<rfloor> \<le> y - of_int \<lfloor>y\<rfloor>" using assms by simp
  then show ?thesis unfolding rne_def Let_def True by auto
next
  case False
  with assms have "\<lfloor>x\<rfloor> < \<lfloor>y\<rfloor>" using floor_mono[OF assms] by linarith
  then have "rne x \<le> \<lfloor>y\<rfloor>" using rne_bounds[of x] by linarith
  also have "\<dots> \<le> rne y" using rne_bounds[of y] by simp
  finally show ?thesis .
qed

lemma fl_pos:
  assumes "0 < x"
  shows "fl x = of_int (rne (x / 2 powi (expo x - 52))) * 2 powi (expo x - 52)"
  using assms by (simp add: fl_def Let_def)

lemma fl_neg: "fl (- x) = - fl x"
  by (simp add: fl_def Let_def sgn_minus)

text \<open>The significand has 53 bits.\<close>

lemma significand_range:
  assumes "0 < x"
  shows "2 ^ 52 \<le> rne (x / 2 powi (expo x - 52)) \<and> rne (x / 2 powi (expo x - 52)) \<le> 2 ^ 53"
proof -
  let ?q = "(2::real) powi (expo x - 52)"
  have q: "0 < ?q" by simp
  have lo: "2 powi expo x = 2 ^ 52 * ?q" "2 powi (expo x + 1) = 2 ^ 53 * ?q"
    by (simp_all add: power_int_diff power_int_add)
  from expo_bounds[OF assms] have "2 ^ 52 * ?q \<le> x" "x \<le> 2 ^ 53 * ?q" unfolding lo by simp_all
  then have "2 ^ 52 \<le> x / ?q" "x / ?q \<le> 2 ^ 53" using q by (simp_all add: field_simps)
  from rne_mono[OF this(1)] rne_mono[OF this(2)]
  have "rne (of_int (2 ^ 52)) \<le> rne (x / ?q)" "rne (x / ?q) \<le> rne (of_int (2 ^ 53))" by simp_all
  then show ?thesis by (simp_all only: rne_int)
qed

lemma fl_range:
  assumes "0 < x"
  shows "2 powi expo x \<le> fl x \<and> fl x \<le> 2 powi (expo x + 1)"
proof -
  let ?q = "(2::real) powi (expo x - 52)"
  have q: "0 < ?q" by simp
  have lo: "2 powi expo x = 2 ^ 52 * ?q" "2 powi (expo x + 1) = 2 ^ 53 * ?q"
    by (simp_all add: power_int_diff power_int_add)
  from significand_range[OF assms]
  have "2 ^ 52 \<le> rne (x / ?q)" "rne (x / ?q) \<le> 2 ^ 53" by simp_all
  then have "(2::real) ^ 52 \<le> of_int (rne (x / ?q))" "(of_int (rne (x / ?q))::real) \<le> 2 ^ 53"
    by (metis of_int_le_iff of_int_numeral of_int_power)+
  then have "2 ^ 52 * ?q \<le> of_int (rne (x / ?q)) * ?q" "of_int (rne (x / ?q)) * ?q \<le> 2 ^ 53 * ?q"
    using q by (simp_all add: mult_right_mono)
  then show ?thesis unfolding lo fl_pos[OF assms] by blast
qed

lemma fl_pos_nonneg: "0 < x \<Longrightarrow> 0 < fl x"
  using fl_range[of x] zero_less_power_int[of "2::real" "expo x"] by linarith

lemma fl_mono_pos:
  assumes "0 < x" "x \<le> y"
  shows "fl x \<le> fl y"
proof (cases "expo x = expo y")
  case True
  let ?q = "(2::real) powi (expo y - 52)"
  have y: "0 < y" using assms by linarith
  have "x / ?q \<le> y / ?q" using assms(2) by (simp add: divide_right_mono)
  from rne_mono[OF this] have "(of_int (rne (x / ?q))::real) \<le> of_int (rne (y / ?q))" by simp
  then have "of_int (rne (x / ?q)) * ?q \<le> of_int (rne (y / ?q)) * ?q"
    by (simp add: mult_right_mono)
  then show ?thesis unfolding fl_pos[OF assms(1)] fl_pos[OF y] True .
next
  case False
  have y: "0 < y" using assms by linarith
  from False expo_mono[OF assms] have "expo x + 1 \<le> expo y" by simp
  then have "(2::real) powi (expo x + 1) \<le> 2 powi expo y" by (rule power_int_increasing) simp
  with fl_range[OF assms(1)] fl_range[OF y] show ?thesis by linarith
qed

lemma fl_zero: "fl 0 = 0" by (simp add: fl_def)

lemma fl_mono:
  assumes "x \<le> y"
  shows "fl x \<le> fl y"
proof -
  consider "0 < x" | "x = 0" "0 < y" | "x = 0" "y = 0" | "x < 0" "0 \<le> y" | "x < 0" "y < 0"
    using assms by linarith
  then show ?thesis
  proof cases
    case 1
    then show ?thesis using assms by (rule fl_mono_pos)
  next
    case 2
    then show ?thesis using fl_pos_nonneg[of y] by (simp add: fl_zero)
  next
    case 3
    then show ?thesis by simp
  next
    case 4
    have "fl x = - fl (- x)" using fl_neg[of "- x"] by simp
    moreover have "0 < fl (- x)" using 4(1) by (intro fl_pos_nonneg) simp
    moreover have "0 \<le> fl y" using 4(2) fl_pos_nonneg[of y] by (cases "y = 0") (simp_all add: fl_zero)
    ultimately show ?thesis by linarith
  next
    case 5
    have "fl (- y) \<le> fl (- x)" using 5 assms by (intro fl_mono_pos) simp_all
    then show ?thesis using fl_neg[of x] fl_neg[of y] by simp
  qed
qed

text \<open>The result is a multiple of the unit in the last place, at most half a unit away from the
  argument.\<close>

lemma rne_error: "\<bar>of_int (rne y) - y\<bar> \<le> 1 / 2"
  by (simp add: rne_def Let_def)

lemma fl_error:
  assumes "0 < x"
  shows "\<bar>fl x - x\<bar> \<le> 2 powi (expo x - 53)"
proof -
  let ?q = "(2::real) powi (expo x - 52)"
  have q: "0 < ?q" by simp
  have "fl x - x = (of_int (rne (x / ?q)) - x / ?q) * ?q"
    using q by (simp add: fl_pos[OF assms] field_simps)
  then have "\<bar>fl x - x\<bar> = \<bar>of_int (rne (x / ?q)) - x / ?q\<bar> * ?q"
    using q by (simp add: abs_mult)
  also have "\<dots> \<le> 1 / 2 * ?q"
    using rne_error[of "x / ?q"] q by (intro mult_right_mono) simp_all
  also have "1 / 2 * ?q = 2 powi (expo x - 53)"
    by (simp add: power_int_diff)
  finally show ?thesis .
qed

text \<open>The doubles of the literals \<open>0.05\<close> and \<open>0.01\<close>, and of \<open>0.1\<close>.\<close>

lemma fl_literals:
  "fl (5 / 100) = 3602879701896397 / 2 ^ 56"
  "fl (1 / 100) = 5764607523034235 / 2 ^ 59"
  "fl (1 / 10) = 3602879701896397 / 2 ^ 55"
  by code_simp+

text \<open>The bounds of the range and their hundredfold are doubles.\<close>

lemma fl_20: "fl 20 = 20"
  by code_simp

lemma fl_2000: "fl 2000 = 2000"
  by code_simp

lemma fl_minus_20: "fl (- 20) = - 20"
  using fl_neg[of 20] by (simp add: fl_20)

lemma fl_minus_2000: "fl (- 2000) = - 2000"
  using fl_neg[of 2000] by (simp add: fl_2000)

lemma step_pos: "0 < fl (5 / 100)"
  by (rule fl_pos_nonneg) simp

section \<open>Strengths stay in range\<close>

lemma round2_range:
  assumes "in_range s"
  shows "in_range (round2 s)"
proof -
  have s: "- 2000 \<le> s * 100" "s * 100 \<le> 2000" using assms by (simp_all add: in_range_def)
  have f: "- 2000 \<le> fl (s * 100)" "fl (s * 100) \<le> 2000"
    using fl_mono[OF s(1)] fl_mono[OF s(2)] by (simp_all add: fl_minus_2000 fl_2000)
  define n where "n = \<lfloor>fl (s * 100) + 1 / 2\<rfloor>"
  have "- 2000 \<le> n" unfolding n_def using f(1) by (simp add: le_floor_iff)
  moreover have "n \<le> 2000" unfolding n_def using f(2) by (simp add: floor_le_iff)
  ultimately have "- 2000 \<le> real_of_int n \<and> real_of_int n \<le> 2000" by simp
  then have "- 20 \<le> real_of_int n / 100" "real_of_int n / 100 \<le> 20" by simp_all
  from fl_mono[OF this(1)] fl_mono[OF this(2)]
  have "- 20 \<le> fl (real_of_int n / 100)" "fl (real_of_int n / 100) \<le> 20"
    by (simp_all add: fl_minus_20 fl_20)
  then show ?thesis by (simp add: in_range_def round2_def Math_round_def n_def)
qed

lemma step_down_range:
  assumes "in_range s"
  shows "in_range (max (- 20) (fl (s - fl (5 / 100))))"
proof -
  have "s - fl (5 / 100) \<le> 20" using assms step_pos by (simp add: in_range_def)
  from fl_mono[OF this] have "fl (s - fl (5 / 100)) \<le> 20" by (simp add: fl_20)
  then show ?thesis by (simp add: in_range_def)
qed

lemma step_up_range:
  assumes "in_range s"
  shows "in_range (min 20 (fl (s + fl (5 / 100))))"
proof -
  have "- 20 \<le> s + fl (5 / 100)" using assms step_pos by (simp add: in_range_def)
  from fl_mono[OF this] have "- 20 \<le> fl (s + fl (5 / 100))" by (simp add: fl_minus_20)
  then show ?thesis by (simp add: in_range_def)
qed

lemma set_key_in_range:
  "slot_in_range v \<Longrightarrow> in_range x \<Longrightarrow> slot_in_range (set_key k x v)"
  by (cases k) (auto simp: slot_in_range_def split: option.splits)

lemma s2_or_in_range: "slot_in_range v \<Longrightarrow> in_range (strengthTwo_or_strength v)"
  by (auto simp: slot_in_range_def strengthTwo_or_strength_def split: option.splits)

lemma mouse_down_range: "slot_in_range (wval w) \<Longrightarrow> slot_in_range (wval (fst (mouse_down dual z e w)))"
  by (simp add: mouse_down_def Let_def)

lemma mouse_move_range:
  assumes "slot_in_range (wval w)"
  shows "slot_in_range (wval (fst (mouse_move e w)))"
proof (cases "dragState w")
  case None
  then show ?thesis using assms by (simp add: mouse_move_def)
next
  case (Some d)
  have "in_range (max (- 20) (min 20 (fl (startVal d + fl (fl (canvas_x e - startX d) * fl (1 / 100))))))"
    by (simp add: in_range_def)
  from round2_range[OF this] set_key_in_range[OF assms] show ?thesis
    using assms Some by (simp add: mouse_move_def Let_def round2_def)
qed

lemma mouse_click_range:
  assumes "slot_in_range (wval w)"
  shows "slot_in_range (wval (fst (mouse_click dual z e w)))"
proof -
  have a: "in_range (strength (wval w))" using assms by (simp add: slot_in_range_def)
  have b: "in_range (strengthTwo_or_strength (wval w))" using assms by (rule s2_or_in_range)
  have 1: "in_range (round2 (max (- 20) (fl (strength (wval w) - fl (5 / 100)))))"
    using a by (intro round2_range step_down_range)
  have 2: "in_range (round2 (min 20 (fl (strength (wval w) + fl (5 / 100)))))"
    using a by (intro round2_range step_up_range)
  have 3: "in_range (round2 (max (- 20) (fl (strengthTwo_or_strength (wval w) - fl (5 / 100)))))"
    using b by (intro round2_range step_down_range)
  have 4: "in_range (round2 (min 20 (fl (strengthTwo_or_strength (wval w) + fl (5 / 100)))))"
    using b by (intro round2_range step_up_range)
  show ?thesis using assms 1 2 3 4
    by (simp add: mouse_click_def Let_def slot_in_range_def round2_def)
qed

lemma mouse_up_range: "slot_in_range (wval w) \<Longrightarrow> slot_in_range (wval (fst (mouse_up_or_dbl dual z e w)))"
  using mouse_click_range[of "w\<lparr>dragState := None\<rparr>" dual z e]
  by (simp add: mouse_up_or_dbl_def Let_def)

lemma mouse_range: "slot_in_range (wval w) \<Longrightarrow> slot_in_range (wval (fst (mouse dual width e w)))"
  by (simp add: mouse_def Let_def mouse_down_range mouse_move_range mouse_up_range)

lemma apply_input_range: "slot_in_range (wval w) \<Longrightarrow> slot_in_range (wval (apply_input k p w))"
  by (auto simp: apply_input_def in_range_def intro!: set_key_in_range split: option.splits)

lemma select_range: "slot_in_range (wval w) \<Longrightarrow> slot_in_range (wval (select_lora v w))"
  by (simp add: select_lora_def slot_in_range_def)

lemma interact_range: "slot_in_range (wval w) \<Longrightarrow> slot_in_range (wval (interact i w))"
  by (cases i) (simp_all add: mouse_range apply_input_range select_range)

lemma interact_all_range: "slot_in_range (wval w) \<Longrightarrow> slot_in_range (wval (interact_all is w))"
  by (induction "is" arbitrary: w) (simp_all add: interact_range)

lemma key_value_set_key: "key_value k (set_key k x v) = Some x"
  by (cases k) simp_all

text \<open>
  Claim C1 (as amended). A slot whose strengths lie in \<open>[-20, 20]\<close> keeps them there under every
  finite sequence of interactions with its widget: pointer events of any type at any position,
  in either mode and at any width (so arrow clicks and drag sessions among them), commits of
  the inline overlay and menu choices. A commit of the overlay with a number \<open>x\<close> stores \<open>x\<close>
  clamped into the range under the key it was opened for: input outside the range is clamped,
  not rejected.
\<close>

theorem strengths_stay_in_range:
  assumes "slot_in_range (wval w)"
  shows "slot_in_range (wval (interact_all is w)) \<and>
         key_value k (wval (apply_input k (Some x) w)) =
           Some (if x < - 20 then - 20 else if 20 < x then 20 else x)"
  using assms by (auto simp: interact_all_range apply_input_def key_value_set_key)

theorem strengths_stay_in_range_witness:
  "slot_in_range (wval (ex_widget 1 None)) \<and>
   slot_in_range (wval (interact_all
     [Mouse False 300 (ex_event ''pointerdown'' 225 1000),
      Mouse False 300 (ex_event ''pointerup'' 225 1080),
      Commit KStrengthTwo (Some 35)] (ex_widget 1 None))) \<and>
   key_value KStrengthTwo (wval (apply_input KStrengthTwo (Some 35) (ex_widget 1 None))) = Some 20"
  using strengths_stay_in_range[of "ex_widget 1 None"
      "[Mouse False 300 (ex_event ''pointerdown'' 225 1000),
        Mouse False 300 (ex_event ''pointerup'' 225 1080),
        Commit KStrengthTwo (Some 35)]" KStrengthTwo 35]
  by (simp add: ex_widget_def slot_in_range_def in_range_def)

text \<open>
  The claim as stated, for every slot, fails for a slot that already holds a strength outside
  the range (\<open>configure\<close> restores any saved number as it is): a click on the left arrow takes
  the strength 100 to 99.95 (the double nearest to it), since that branch only bounds the value
  from below.
\<close>

theorem strengths_stay_in_range_counterexample:
  "map slot_of (slot_values (configure
       \<lparr>info_showStrengths = None,
        widgets_values =
          [JObj [(''on'', JBool True), (''lora'', JStr ''123:foo''), (''strength'', JNum 100)]]\<rparr>
       (onNodeCreated False []))) = [Some (wval (ex_widget 100 None))] \<and>
   strength (wval (interact_all
      [Mouse False 300 (ex_event ''pointerdown'' 225 1000),
       Mouse False 300 (ex_event ''pointerup'' 225 1080)] (ex_widget 100 None))) = fl (1999 / 20) \<and>
   \<not> slot_in_range (wval (interact_all
      [Mouse False 300 (ex_event ''pointerdown'' 225 1000),
       Mouse False 300 (ex_event ''pointerup'' 225 1080)] (ex_widget 100 None)))"
proof -
  have 1: "map slot_of (slot_values (configure
       \<lparr>info_showStrengths = None,
        widgets_values =
          [JObj [(''on'', JBool True), (''lora'', JStr ''123:foo''), (''strength'', JNum 100)]]\<rparr>
       (onNodeCreated False []))) = [Some (wval (ex_widget 100 None))]"
    by (simp add: ex_widget_def slot_values_def getLoraWidgets_def configure_def
        onNodeCreated_def setupLoraNode_def Let_def createToggleAllWidget_def
        createAddLoraButton_def createLoraWidget_def addBaseModelWidget_def restored_slot_def
        has_key_def field_def slot_of_def dec.simps digit_def)
  have 2: "strength (wval (interact_all
      [Mouse False 300 (ex_event ''pointerdown'' 225 1000),
       Mouse False 300 (ex_event ''pointerup'' 225 1080)] (ex_widget 100 None))) = fl (1999 / 20)"
    by code_simp
  have 3: "\<not> slot_in_range (wval (interact_all
      [Mouse False 300 (ex_event ''pointerdown'' 225 1000),
       Mouse False 300 (ex_event ''pointerup'' 225 1080)] (ex_widget 100 None)))"
    by code_simp
  from 1 2 3 show ?thesis by blast
qed

section \<open>Press, move, release\<close>













section \<open>The second column falls back to the first\<close>







section \<open>Objects and slot values\<close>

lemma field_update: "field (AList.update k x obj) k' = (if k' = k then x else field obj k')"
  by (simp add: field_def update_conv')

lemma digit_cases: "d < 10 \<Longrightarrow> digit d \<in> set ''0123456789''"
  unfolding digit_def by (rule nth_mem) simp

lemma dec_digits: "set (dec n) \<subseteq> set ''0123456789''"
proof (induction n rule: dec.induct)
  case (1 n)
  show ?case
  proof (cases "n < 10")
    case True
    then show ?thesis using digit_cases[of n] by (subst dec.simps) simp
  next
    case False
    then show ?thesis using 1 digit_cases[of "n mod 10"] by (subst dec.simps) simp
  qed
qed

lemma field_spread_str:
  assumes "\<not> set k \<subseteq> set ''0123456789''"
  shows "field (spread (Str s)) k = JUndef"
proof -
  have "k \<notin> fst ` set (spread (Str s))"
  proof
    assume "k \<in> fst ` set (spread (Str s))"
    then obtain i where "k = dec i" by auto
    with dec_digits[of i] assms show False by blast
  qed
  then have "map_of (spread (Str s)) k = None" by (simp add: map_of_eq_None_iff del: spread.simps)
  then show ?thesis by (simp add: field_def del: spread.simps)
qed

lemma field_spread:
  assumes "\<not> set k \<subseteq> set ''0123456789''"
  shows "field (spread v) k = wprop v k"
proof (cases v)
  case (Str s)
  then show ?thesis using field_spread_str[OF assms, of s] by simp
next
  case (Obj obj)
  then show ?thesis by simp
qed

lemma not_digits:
  "\<not> set ''on'' \<subseteq> set ''0123456789''" "\<not> set ''lora'' \<subseteq> set ''0123456789''"
  "\<not> set ''strength'' \<subseteq> set ''0123456789''" "\<not> set ''strengthTwo'' \<subseteq> set ''0123456789''"
  by simp_all

lemmas field_spread_keys = not_digits[THEN field_spread]


lemma field_set:
  assumes "\<not> set k' \<subseteq> set ''0123456789''"
  shows "field (AList.update k x (spread v)) k' = (if k' = k then x else wprop v k')"
  using field_spread[OF assms, of v] by (simp add: field_update del: spread.simps)

lemmas wprop_set_keys = not_digits[THEN field_set]

lemma update_lora_is_lora [simp]: "is_lora (update_lora f w) = is_lora w"
  by (cases w) simp_all

lemma update_lora_is_slot [simp]: "is_slot (update_lora f w) = is_slot w"
  by (cases w) simp_all

lemma update_lora_name [simp]: "wname (update_lora f w) = wname w"
  by (cases w) simp_all

lemma update_lora_value: "is_lora w \<Longrightarrow> value_of (update_lora f w) = f (value_of w)"
  by (cases w) simp_all

lemma lora_values_map:
  "map value_of (filter is_lora (map (update_lora f) ws)) = map f (map value_of (filter is_lora ws))"
  by (induction ws) (simp_all add: update_lora_value)

lemma slot_values_update:
  "slot_values (nd\<lparr>widgets := map (update_lora f) (widgets nd)\<rparr>) = map f (slot_values nd)"
  by (simp add: slot_values_def getLoraWidgets_def lora_values_map)

lemma list_all2_map_self: "(\<And>x. R x (f x)) \<Longrightarrow> list_all2 R xs (map f xs)"
  by (induction xs) simp_all

lemma slot_values_dual:
  "slot_values (onPropertyChanged ''showStrengths'' ''Model & Clip'' nd) =
    map (\<lambda>v. if nullish (wprop v ''strengthTwo'')
                      then Obj (AList.update ''strengthTwo'' (wprop v ''strength'') (spread v))
                      else v) (slot_values nd)"
  by (simp add: onPropertyChanged_def slot_values_update)

lemma slot_values_single:
  "val \<noteq> ''Model & Clip'' \<Longrightarrow> slot_values (onPropertyChanged ''showStrengths'' val nd) =
    map (\<lambda>v. Obj (AList.update ''strengthTwo'' JNull (spread v))) (slot_values nd)"
  by (simp add: onPropertyChanged_def slot_values_update)

lemma same_core_refl: "same_core v v" by (simp add: same_core_def)

lemma same_core_trans: "same_core a b \<Longrightarrow> same_core b c \<Longrightarrow> same_core a c"
  by (simp add: same_core_def)

lemma same_core_set2: "same_core v (Obj (AList.update ''strengthTwo'' x (spread v)))"
  by (simp add: same_core_def wprop_set_keys del: spread.simps)

section \<open>Mode transitions keep the other fields\<close>

text \<open>
  Claim C3. On a change of \<open>showStrengths\<close> to \<open>Model & Clip\<close>, every slot whose \<open>strengthTwo\<close> is
  \<open>null\<close> or missing gets \<open>strengthTwo = strength\<close>, and every other slot keeps its \<open>strengthTwo\<close>;
  on a change to \<open>Single\<close>, every slot gets \<open>strengthTwo = null\<close>. In both directions every slot
  keeps \<open>on\<close>, \<open>lora\<close> and \<open>strength\<close>, and the widget list keeps its length, names and kinds.
\<close>

theorem mode_switch:
  "list_all2 (\<lambda>v v'. same_core v v' \<and>
       wprop v' ''strengthTwo'' =
         (if nullish (wprop v ''strengthTwo'') then wprop v ''strength''
          else wprop v ''strengthTwo''))
     (slot_values nd) (slot_values (onPropertyChanged ''showStrengths'' ''Model & Clip'' nd)) \<and>
   list_all2 (\<lambda>v v'. same_core v v' \<and> wprop v' ''strengthTwo'' = JNull)
     (slot_values nd) (slot_values (onPropertyChanged ''showStrengths'' ''Single'' nd)) \<and>
   map wname (widgets (onPropertyChanged ''showStrengths'' val nd)) = map wname (widgets nd) \<and>
   map is_slot (widgets (onPropertyChanged ''showStrengths'' val nd)) = map is_slot (widgets nd)"
proof -
  have 1: "list_all2 (\<lambda>v v'. same_core v v' \<and>
       wprop v' ''strengthTwo'' =
         (if nullish (wprop v ''strengthTwo'') then wprop v ''strength''
          else wprop v ''strengthTwo''))
     (slot_values nd) (slot_values (onPropertyChanged ''showStrengths'' ''Model & Clip'' nd))"
    unfolding slot_values_dual
    by (rule list_all2_map_self)
       (simp add: same_core_set2 same_core_refl wprop_set_keys del: spread.simps)
  have 2: "list_all2 (\<lambda>v v'. same_core v v' \<and> wprop v' ''strengthTwo'' = JNull)
     (slot_values nd) (slot_values (onPropertyChanged ''showStrengths'' ''Single'' nd))"
    by (subst slot_values_single, simp, rule list_all2_map_self)
       (simp add: same_core_set2 wprop_set_keys del: spread.simps)
  have 3: "map wname (widgets (onPropertyChanged ''showStrengths'' val nd)) = map wname (widgets nd)"
    "map is_slot (widgets (onPropertyChanged ''showStrengths'' val nd)) = map is_slot (widgets nd)"
    by (simp_all add: onPropertyChanged_def comp_def)
  show ?thesis using 1 2 3 by blast
qed

theorem mode_switch_witness:
  "map (\<lambda>v. wprop v ''strengthTwo'')
     (slot_values (onPropertyChanged ''showStrengths'' ''Model & Clip''
        (two_slots (ex_slot True ''123:foo'' (8 / 10))
           (Obj (obj_of_slot \<lparr>on = False, lora = ''456:bar'', strength = 1,
                             strengthTwo = Some (1 / 2)\<rparr>)) ''Model & Clip'')))
     = [JNum (8 / 10), JNum (1 / 2)] \<and>
   map (\<lambda>v. wprop v ''strengthTwo'')
     (slot_values (onPropertyChanged ''showStrengths'' ''Single''
        (two_slots (ex_slot True ''123:foo'' (8 / 10))
           (Obj (obj_of_slot \<lparr>on = False, lora = ''456:bar'', strength = 1,
                             strengthTwo = Some (1 / 2)\<rparr>)) ''Single'')))
     = [JNull, JNull]"
  using mode_switch[of "two_slots (ex_slot True ''123:foo'' (8 / 10))
           (Obj (obj_of_slot \<lparr>on = False, lora = ''456:bar'', strength = 1,
                             strengthTwo = Some (1 / 2)\<rparr>)) ''Model & Clip''" "''Single''"]
    mode_switch[of "two_slots (ex_slot True ''123:foo'' (8 / 10))
           (Obj (obj_of_slot \<lparr>on = False, lora = ''456:bar'', strength = 1,
                             strengthTwo = Some (1 / 2)\<rparr>)) ''Single''" "''Single''"]
  by (simp add: onPropertyChanged_def slot_values_def getLoraWidgets_def two_slots_def
      ex_slot_def obj_of_slot_def field_def)

text \<open>
  Claim C9. For every node, the change of \<open>showStrengths\<close> to \<open>Model & Clip\<close> followed by the
  change back to \<open>Single\<close> leaves every slot's \<open>on\<close>, \<open>lora\<close> and \<open>strength\<close> as they were.
\<close>

theorem mode_round_trip:
  "list_all2 same_core (slot_values nd)
     (slot_values (onPropertyChanged ''showStrengths'' ''Single''
        (onPropertyChanged ''showStrengths'' ''Model & Clip'' nd)))"
proof -
  have "same_core v (Obj (AList.update ''strengthTwo'' JNull (spread
            (if nullish (wprop v ''strengthTwo'')
                      then Obj (AList.update ''strengthTwo'' (wprop v ''strength'') (spread v))
                      else v))))" for v
    by (rule same_core_trans[OF _ same_core_set2]) (simp add: same_core_set2 same_core_refl del: spread.simps)
  then show ?thesis
    by (subst slot_values_single, simp, subst slot_values_dual, simp add: list_all2_map2 list_all2_same comp_def del: spread.simps)
qed


theorem mode_round_trip_witness:
  "map (\<lambda>v. (wprop v ''on'', wprop v ''lora'', wprop v ''strength''))
     (slot_values (onPropertyChanged ''showStrengths'' ''Single''
        (onPropertyChanged ''showStrengths'' ''Model & Clip''
           (two_slots (ex_slot True ''123:foo'' (8 / 10)) (ex_slot False ''None'' 1) ''Single''))))
     = [(JBool True, JStr ''123:foo'', JNum (8 / 10)), (JBool False, JStr ''None'', JNum 1)]"
  using mode_round_trip[of
      "two_slots (ex_slot True ''123:foo'' (8 / 10)) (ex_slot False ''None'' 1) ''Single''"]
  by (simp add: onPropertyChanged_def slot_values_def getLoraWidgets_def two_slots_def
      ex_slot_def obj_of_slot_def field_def)

section \<open>Toggle-all\<close>

lemma allOn_values: "allOn nd = (slot_values nd \<noteq> [] \<and> list_all enabled (slot_values nd))"
  by (simp add: allOn_def slot_values_def Let_def list_all_iff)

lemma someOn_values: "someOn nd = list_ex enabled (slot_values nd)"
  by (simp add: someOn_def slot_values_def list_ex_iff)

lemma toggle_all_up:
  assumes "t = ''pointerup'' \<or> t = ''mouseup''"
  shows "toggle_all_mouse t nd =
    (nd\<lparr>widgets := map (update_lora (\<lambda>v. Obj (AList.update ''on'' (JBool (\<not> allOn nd)) (spread v))))
                     (widgets nd)\<rparr>, True)"
  using assms by (auto simp: toggle_all_mouse_def Let_def)

lemma toggle_all_down:
  assumes "t = ''pointerdown'' \<or> t = ''mousedown''"
  shows "toggle_all_mouse t nd = (nd, True)"
  using assms by (auto simp: toggle_all_mouse_def)

text \<open>
  Claim C6. The switch the toggle-all widget draws is computed from the slots: on exactly when
  there is a slot and every slot is enabled, partial exactly when some but not all slots are
  enabled, off exactly when no slot is enabled (an empty list included). A press changes
  nothing; a release sets \<open>on\<close> of every slot to the negation of "there is a slot and every slot
  is enabled" and leaves the other fields alone. For two slots, the first enabled and the
  second not, the switch is partial, one click enables both and a second click disables both.
\<close>

theorem toggle_all_correct:
  "(toggle_all_draw nd = SwitchOn \<longleftrightarrow>
      slot_values nd \<noteq> [] \<and> list_all enabled (slot_values nd)) \<and>
   (toggle_all_draw nd = SwitchPartial \<longleftrightarrow>
      list_ex enabled (slot_values nd) \<and> \<not> list_all enabled (slot_values nd)) \<and>
   (toggle_all_draw nd = SwitchOff \<longleftrightarrow>
      list_all (\<lambda>v. \<not> enabled v) (slot_values nd) \<or> slot_values nd = []) \<and>
   (t = ''pointerdown'' \<or> t = ''mousedown'' \<longrightarrow> toggle_all_mouse t nd = (nd, True)) \<and>
   (t = ''pointerup'' \<or> t = ''mouseup'' \<longrightarrow>
      snd (toggle_all_mouse t nd) = True \<and>
      list_all2 (\<lambda>v v'.
          wprop v' ''on'' =
            JBool (\<not> (slot_values nd \<noteq> [] \<and> list_all enabled (slot_values nd))) \<and>
          wprop v' ''lora'' = wprop v ''lora'' \<and> wprop v' ''strength'' = wprop v ''strength'' \<and>
          wprop v' ''strengthTwo'' = wprop v ''strengthTwo'')
        (slot_values nd) (slot_values (fst (toggle_all_mouse t nd)))) \<and>
   toggle_all_draw (two_slots (ex_slot True ''123:foo'' 1) (ex_slot False ''456:bar'' 1) ''Single'')
     = SwitchPartial \<and>
   map enabled (slot_values (click_toggle_all
      (two_slots (ex_slot True ''123:foo'' 1) (ex_slot False ''456:bar'' 1) ''Single'')))
     = [True, True] \<and>
   map enabled (slot_values (click_toggle_all (click_toggle_all
      (two_slots (ex_slot True ''123:foo'' 1) (ex_slot False ''456:bar'' 1) ''Single''))))
     = [False, False]"
proof -
  let ?vs = "slot_values nd"
  have emp: "?vs = [] \<Longrightarrow> \<not> list_ex enabled ?vs" by simp
  have ex: "list_ex enabled ?vs \<longleftrightarrow> \<not> list_all (\<lambda>v. \<not> enabled v) ?vs"
    by (auto simp: list_ex_iff list_all_iff)
  have all_ex: "?vs \<noteq> [] \<Longrightarrow> list_all enabled ?vs \<Longrightarrow> list_ex enabled ?vs"
    by (cases ?vs) (auto simp: list_ex_iff list_all_iff)
  have 1: "toggle_all_draw nd = SwitchOn \<longleftrightarrow> ?vs \<noteq> [] \<and> list_all enabled ?vs"
    by (simp add: toggle_all_draw_def drawSwitch_def allOn_values)
  have 2: "toggle_all_draw nd = SwitchPartial \<longleftrightarrow> list_ex enabled ?vs \<and> \<not> list_all enabled ?vs"
    using emp by (auto simp: toggle_all_draw_def drawSwitch_def allOn_values someOn_values)
  have 3: "toggle_all_draw nd = SwitchOff \<longleftrightarrow> list_all (\<lambda>v. \<not> enabled v) ?vs \<or> ?vs = []"
    using emp all_ex ex
    by (auto simp: toggle_all_draw_def drawSwitch_def allOn_values someOn_values)
  have 4: "toggle_all_mouse t nd = (nd, True)" if "t = ''pointerdown'' \<or> t = ''mousedown''"
    by (rule toggle_all_down[OF that])
  have 5: "snd (toggle_all_mouse t nd) = True \<and>
      list_all2 (\<lambda>v v'.
          wprop v' ''on'' = JBool (\<not> (?vs \<noteq> [] \<and> list_all enabled ?vs)) \<and>
          wprop v' ''lora'' = wprop v ''lora'' \<and> wprop v' ''strength'' = wprop v ''strength'' \<and>
          wprop v' ''strengthTwo'' = wprop v ''strengthTwo'')
        ?vs (slot_values (fst (toggle_all_mouse t nd)))"
    if "t = ''pointerup'' \<or> t = ''mouseup''"
    unfolding toggle_all_up[OF that] fst_conv snd_conv slot_values_update
    by (rule conjI, simp, rule list_all2_map_self)
       (simp add: wprop_set_keys allOn_values del: spread.simps)
  have 6: "toggle_all_draw (two_slots (ex_slot True ''123:foo'' 1) (ex_slot False ''456:bar'' 1) ''Single'')
     = SwitchPartial"
    by (simp add: toggle_all_draw_def drawSwitch_def allOn_def someOn_def getLoraWidgets_def
        two_slots_def ex_slot_def obj_of_slot_def enabled_def field_def)
  have 7: "map enabled (slot_values (click_toggle_all
      (two_slots (ex_slot True ''123:foo'' 1) (ex_slot False ''456:bar'' 1) ''Single'')))
     = [True, True]"
    by (simp add: click_toggle_all_def toggle_all_mouse_def allOn_def slot_values_def
        getLoraWidgets_def two_slots_def ex_slot_def obj_of_slot_def enabled_def field_def)
  have 8: "map enabled (slot_values (click_toggle_all (click_toggle_all
      (two_slots (ex_slot True ''123:foo'' 1) (ex_slot False ''456:bar'' 1) ''Single''))))
     = [False, False]"
    by (simp add: click_toggle_all_def toggle_all_mouse_def allOn_def slot_values_def
        getLoraWidgets_def two_slots_def ex_slot_def obj_of_slot_def enabled_def field_def)
  show ?thesis using 1 2 3 4 5 6 7 8 by blast
qed

theorem toggle_all_correct_witness:
  "toggle_all_draw (two_slots (ex_slot True ''123:foo'' 1) (ex_slot True ''456:bar'' 1) ''Single'')
     = SwitchOn \<and>
   toggle_all_mouse ''pointerdown''
       (two_slots (ex_slot True ''123:foo'' 1) (ex_slot True ''456:bar'' 1) ''Single'')
     = (two_slots (ex_slot True ''123:foo'' 1) (ex_slot True ''456:bar'' 1) ''Single'', True) \<and>
   map (\<lambda>v. wprop v ''on'') (slot_values (fst (toggle_all_mouse ''pointerup''
       (two_slots (ex_slot True ''123:foo'' 1) (ex_slot True ''456:bar'' 1) ''Single''))))
     = [JBool False, JBool False]"
  using toggle_all_correct[of "two_slots (ex_slot True ''123:foo'' 1) (ex_slot True ''456:bar'' 1) ''Single''"
      "''pointerdown''"]
    toggle_all_correct[of "two_slots (ex_slot True ''123:foo'' 1) (ex_slot True ''456:bar'' 1) ''Single''"
      "''pointerup''"]
  by (simp add: toggle_all_mouse_def allOn_def slot_values_def
        getLoraWidgets_def two_slots_def ex_slot_def obj_of_slot_def enabled_def field_def)

section \<open>Upgrade of bare strings\<close>

lemma api_upgrade_widgets:
  "widgets (api_upgrade nd) = map (upgrade_widget (isDualMode nd)) (widgets nd)"
proof -
  have id: "map (upgrade_widget d) ws = ws" if "filter api_slot ws = []" for d ws
    using that
  proof (induction ws)
    case Nil
    then show ?case by simp
  next
    case (Cons w ws)
    then have "\<not> api_slot w" and "filter api_slot ws = []" by (auto split: if_splits)
    moreover from \<open>\<not> api_slot w\<close> have "upgrade_widget d w = w"
      by (cases "(d, w)" rule: upgrade_widget.cases) simp_all
    ultimately show ?case using Cons.IH by simp
  qed
  have sub: "filter api_slot ws = []" if "\<not> list_ex is_slot ws" for ws
    using that
  proof (induction ws)
    case Nil
    then show ?case by simp
  next
    case (Cons w ws)
    then have "\<not> is_slot w" by simp
    then have "\<not> api_slot w" by (cases w rule: api_slot.cases) simp_all
    then show ?case using Cons by simp
  qed
  show ?thesis using id sub by (auto simp: api_upgrade_def Let_def)
qed

text \<open>
  Claim C4. The upgrade pass replaces the value of every slot widget that holds a bare string
  \<open>v\<close> by the record with \<open>lora = v\<close>, \<open>on = (v \<noteq> "None")\<close>, \<open>strength = 1\<close> and \<open>strengthTwo = 1\<close> in
  dual mode, \<open>null\<close> otherwise; every other widget, the length of the list and the mode are
  unchanged. The specification's sentinel \<open>none\<close> is the string \<open>"None"\<close> of the code: slot widgets
  holding \<open>"123:foo"\<close> and \<open>"None"\<close> in single mode become an enabled slot for \<open>123:foo\<close> and a
  disabled slot for \<open>None\<close>, both with strength 1 and no second strength.
\<close>

theorem degraded_upgrade:
  "(\<forall>i < length (widgets nd).
      (\<forall>n v. widgets nd ! i = LoraSlot n (Str v) \<longrightarrow>
         widgets (api_upgrade nd) ! i =
           LoraSlot n (Obj (obj_of_slot
             \<lparr>on = (v \<noteq> ''None''), lora = v, strength = 1,
              strengthTwo = (if isDualMode nd then Some 1 else None)\<rparr>))) \<and>
      (\<not> api_slot (widgets nd ! i) \<longrightarrow> widgets (api_upgrade nd) ! i = widgets nd ! i)) \<and>
   length (widgets (api_upgrade nd)) = length (widgets nd) \<and>
   showStrengths (api_upgrade nd) = showStrengths nd \<and>
   slot_values (api_upgrade (two_slots (Str ''123:foo'') (Str ''None'') ''Single'')) =
     [Obj (obj_of_slot \<lparr>on = True, lora = ''123:foo'', strength = 1, strengthTwo = None\<rparr>),
      Obj (obj_of_slot \<lparr>on = False, lora = ''None'', strength = 1, strengthTwo = None\<rparr>)]"
proof -
  have a: "upgrade_widget d (LoraSlot n (Str v)) = LoraSlot n (Obj (obj_of_slot
             \<lparr>on = (v \<noteq> ''None''), lora = v, strength = 1,
              strengthTwo = (if d then Some 1 else None)\<rparr>))" for d n v
    by (simp add: obj_of_slot_def)
  have b: "upgrade_widget d w = w" if "\<not> api_slot w" for d w
    using that by (cases "(d, w)" rule: upgrade_widget.cases) simp_all
  have s: "showStrengths (api_upgrade nd) = showStrengths nd"
    by (simp add: api_upgrade_def Let_def)
  have e: "slot_values (api_upgrade (two_slots (Str ''123:foo'') (Str ''None'') ''Single'')) =
     [Obj (obj_of_slot \<lparr>on = True, lora = ''123:foo'', strength = 1, strengthTwo = None\<rparr>),
      Obj (obj_of_slot \<lparr>on = False, lora = ''None'', strength = 1, strengthTwo = None\<rparr>)]"
    by (simp add: slot_values_def getLoraWidgets_def api_upgrade_widgets two_slots_def
        isDualMode_def obj_of_slot_def)
  show ?thesis using a b s e by (simp add: api_upgrade_widgets)
qed

theorem degraded_upgrade_witness:
  "widgets (api_upgrade (two_slots (Str ''123:foo'') (ex_slot True ''456:bar'' 1) ''Model & Clip'')) ! 2 =
     LoraSlot ''lora_1'' (Obj (obj_of_slot
        \<lparr>on = True, lora = ''123:foo'', strength = 1, strengthTwo = Some 1\<rparr>)) \<and>
   widgets (api_upgrade (two_slots (Str ''123:foo'') (ex_slot True ''456:bar'' 1) ''Model & Clip'')) ! 3 =
     LoraSlot ''lora_2'' (ex_slot True ''456:bar'' 1)"
  using degraded_upgrade[of "two_slots (Str ''123:foo'') (ex_slot True ''456:bar'' 1) ''Model & Clip''"]
  by (simp add: two_slots_def isDualMode_def ex_slot_def)


section \<open>Restore\<close>

lemma restore_slots_widgets:
  "widgets (restore_slots i svs nd) =
     widgets nd @ map (\<lambda>(j, sv). LoraSlot (''lora_'' @ dec (j + 1)) (Obj (restored_slot sv)))
                    (enumerate i svs)"
  by (induction svs arbitrary: i nd) (simp_all add: createLoraWidget_def)

lemma restore_slots_mode: "showStrengths (restore_slots i svs nd) = showStrengths nd"
  by (induction svs arbitrary: i nd) (simp_all add: createLoraWidget_def)

lemma configure_widgets:
  "widgets (configure saved nd) =
     filter (\<lambda>w. \<not> dynamic w \<and> \<not> (wname w = ''mm_auth'' \<or> wname w = ''mm_refresh'')) (widgets nd) @
     [ToggleAll] @ restored_widgets (filter slot_shaped (widgets_values saved)) @ [AddLora] @
     filter (\<lambda>w. \<not> dynamic w \<and> (wname w = ''mm_auth'' \<or> wname w = ''mm_refresh'')) (widgets nd)"
  by (simp add: configure_def Let_def restored_widgets_def restore_slots_widgets
      createToggleAllWidget_def createAddLoraButton_def createLoraWidget_def
      split: option.splits)

lemma configure_mode:
  "showStrengths (configure saved nd) =
    (case info_showStrengths saved of
       Some s \<Rightarrow> if s \<noteq> [] then s else showStrengths nd
     | None \<Rightarrow> showStrengths nd)"
  by (simp add: configure_def Let_def restore_slots_mode
      createToggleAllWidget_def createAddLoraButton_def createLoraWidget_def
      split: option.splits)

lemma not_dynamic_not_slot: "\<not> dynamic w \<Longrightarrow> \<not> is_slot w \<and> \<not> is_lora w \<and> w \<noteq> AddLora"
  by (cases w) simp_all

lemma filter_not_dynamic_slots:
  "filter (\<lambda>x. \<not> dynamic x \<and> P x \<and> is_slot x) ws = []"
  "filter (\<lambda>x. \<not> dynamic x \<and> P x \<and> is_lora x) ws = []"
  by (auto simp: filter_empty_conv dest: not_dynamic_not_slot)

lemma restored_all_slots:
  "filter is_slot (restored_widgets svs) = restored_widgets svs"
  "filter is_lora (restored_widgets svs) = restored_widgets svs"
  by (auto simp: restored_widgets_def filter_id_conv)

lemma configure_slots:
  "filter is_slot (widgets (configure saved nd)) =
     restored_widgets (filter slot_shaped (widgets_values saved))"
  "filter is_lora (widgets (configure saved nd)) =
     restored_widgets (filter slot_shaped (widgets_values saved))"
  by (auto simp: configure_widgets filter_not_dynamic_slots restored_all_slots filter_empty_conv
      dest: not_dynamic_not_slot)

lemma created_widgets:
  "widgets (onNodeCreated c hs) =
     filter (\<lambda>w. wname w = ''model'' \<or> wname w = ''clip'' \<or> wname w = ''mm_auth'' \<or>
                 wname w = ''mm_refresh'') (map Host hs) @
     [Host ''base_model'', ToggleAll, LoraSlot (''lora_'' @ dec 1) (Obj default_slot), AddLora,
      Host (if c then ''Model Manager: Connected'' else ''Connect to Model Manager''),
      Host ''mm_refresh'']"
  by (simp add: onNodeCreated_def setupLoraNode_def Let_def createToggleAllWidget_def
      createAddLoraButton_def createLoraWidget_def addBaseModelWidget_def)

lemma filter_hosts:
  "filter is_slot (filter P (map Host hs)) = []" "filter is_lora (filter P (map Host hs)) = []"
  by (auto simp: filter_empty_conv)

lemma created_slots:
  "filter is_slot (widgets (onNodeCreated c hs)) = [LoraSlot (''lora_'' @ dec 1) (Obj default_slot)]"
  by (simp add: created_widgets filter_hosts)

lemma dec_1: "dec (Suc 0) = ''1''"
  by (simp add: dec.simps digit_def)

text \<open>
  Claim C8. When the saved widget values hold no slot-shaped entry (no object with a key
  \<open>lora\<close>), \<open>configure\<close> leaves the node with exactly one slot widget, \<open>lora_1\<close>, holding the default
  record: enabled, selection \<open>None\<close>, strength 1, no second strength. A freshly created node has
  exactly the same slot list.
\<close>

theorem empty_restore:
  assumes "filter slot_shaped (widgets_values saved) = []"
  shows "filter is_slot (widgets (configure saved nd)) = [LoraSlot ''lora_1'' (Obj default_slot)] \<and>
         filter is_slot (widgets (onNodeCreated c hs)) = [LoraSlot ''lora_1'' (Obj default_slot)] \<and>
         slot_of (Obj default_slot) =
           Some \<lparr>on = True, lora = ''None'', strength = 1, strengthTwo = None\<rparr>"
  using assms
  by (simp add: configure_slots created_slots restored_widgets_def dec_1 slot_of_def
      default_slot_def field_def)

theorem empty_restore_witness:
  "filter slot_shaped [JStr ''All'', JNull, JNum 3, JObj [(''foo'', JNum 1)], JArr []] = [] \<and>
   filter is_slot (widgets (configure
       \<lparr>info_showStrengths = None,
        widgets_values = [JStr ''All'', JNull, JNum 3, JObj [(''foo'', JNum 1)], JArr []]\<rparr>
       (one_slot (Obj (obj_of_slot \<lparr>on = True, lora = ''123:foo'', strength = 2, strengthTwo = None\<rparr>))
          ''Single'')))
     = [LoraSlot ''lora_1'' (Obj default_slot)]"
  using empty_restore[of
       "\<lparr>info_showStrengths = None,
        widgets_values = [JStr ''All'', JNull, JNum 3, JObj [(''foo'', JNum 1)], JArr []]\<rparr>"
       "one_slot (Obj (obj_of_slot \<lparr>on = True, lora = ''123:foo'', strength = 2, strengthTwo = None\<rparr>))
          ''Single''"]
  by (simp add: has_key_def)

lemma delete_no_key: "\<not> has_key k (AList.delete k obj)"
  by (simp add: has_key_def delete_keys)

lemma field_delete: "k' \<noteq> k \<Longrightarrow> field (AList.delete k obj) k' = field obj k'"
  by (simp add: field_def delete_conv')

text \<open>
  Claim C5. Outside dual mode the serialization hook returns the slot value without the key
  \<open>strengthTwo\<close> and with \<open>on\<close>, \<open>lora\<close> and \<open>strength\<close> as they are; in dual mode it returns the value
  as it is. Saving a node in single mode whose one slot is enabled, selects \<open>123:foo\<close> and has
  strength 0.8, and restoring the saved state into any node, gives exactly one slot widget
  with that record and no second strength, in single mode.
\<close>

theorem serialization_round_trip:
  "\<not> has_key ''strengthTwo'' (serializeValue False v) \<and>
   field (serializeValue False v) ''on'' = wprop v ''on'' \<and>
   field (serializeValue False v) ''lora'' = wprop v ''lora'' \<and>
   field (serializeValue False v) ''strength'' = wprop v ''strength'' \<and>
   serializeValue True v = spread v \<and>
   widgets_values (save_node (one_slot (ex_slot True ''123:foo'' (8 / 10)) ''Single'')) =
     [JObj [(''on'', JBool True), (''lora'', JStr ''123:foo''), (''strength'', JNum (8 / 10))]] \<and>
   filter is_slot (widgets (configure
       (save_node (one_slot (ex_slot True ''123:foo'' (8 / 10)) ''Single'')) nd)) =
     [LoraSlot ''lora_1'' (ex_slot True ''123:foo'' (8 / 10))] \<and>
   slot_of (ex_slot True ''123:foo'' (8 / 10)) =
     Some \<lparr>on = True, lora = ''123:foo'', strength = 8 / 10, strengthTwo = None\<rparr> \<and>
   isDualMode (configure
       (save_node (one_slot (ex_slot True ''123:foo'' (8 / 10)) ''Single'')) nd) = False"
proof -
  have 1: "\<not> has_key ''strengthTwo'' (serializeValue False v)"
    by (simp add: serializeValue_def delete_no_key del: spread.simps)
  have 2: "field (serializeValue False v) ''on'' = wprop v ''on''"
    "field (serializeValue False v) ''lora'' = wprop v ''lora''"
    "field (serializeValue False v) ''strength'' = wprop v ''strength''"
    by (simp_all add: serializeValue_def field_delete field_spread_keys del: spread.simps)
  have 3: "serializeValue True v = spread v" by (simp add: serializeValue_def)
  have 4: "widgets_values (save_node (one_slot (ex_slot True ''123:foo'' (8 / 10)) ''Single'')) =
     [JObj [(''on'', JBool True), (''lora'', JStr ''123:foo''), (''strength'', JNum (8 / 10))]]"
    by (simp add: ex_slot_def save_node_def one_slot_def slot_values_def getLoraWidgets_def
        isDualMode_def serializeValue_def obj_of_slot_def AList.delete_eq)
  have 5: "filter is_slot (widgets (configure
       (save_node (one_slot (ex_slot True ''123:foo'' (8 / 10)) ''Single'')) nd)) =
     [LoraSlot ''lora_1'' (ex_slot True ''123:foo'' (8 / 10))]"
    unfolding configure_slots 4
    by (simp add: ex_slot_def restored_widgets_def restored_slot_def has_key_def field_def dec_1
        obj_of_slot_def)
  have 6: "isDualMode (configure
       (save_node (one_slot (ex_slot True ''123:foo'' (8 / 10)) ''Single'')) nd) = False"
    by (simp add: isDualMode_def configure_mode save_node_def one_slot_def)
  have 7: "slot_of (ex_slot True ''123:foo'' (8 / 10)) =
     Some \<lparr>on = True, lora = ''123:foo'', strength = 8 / 10, strengthTwo = None\<rparr>"
    by (simp add: slot_of_def ex_slot_def obj_of_slot_def field_def)
  show ?thesis using 1 2 3 4 5 6 7 by blast
qed

theorem serialization_round_trip_witness:
  "serializeValue False
     (Obj (obj_of_slot \<lparr>on = True, lora = ''123:foo'', strength = 8 / 10, strengthTwo = Some 2\<rparr>)) =
     [(''on'', JBool True), (''lora'', JStr ''123:foo''), (''strength'', JNum (8 / 10))] \<and>
   serializeValue True
     (Obj (obj_of_slot \<lparr>on = True, lora = ''123:foo'', strength = 8 / 10, strengthTwo = Some 2\<rparr>)) =
     [(''on'', JBool True), (''lora'', JStr ''123:foo''), (''strength'', JNum (8 / 10)),
      (''strengthTwo'', JNum 2)] \<and>
   map wname (widgets (configure
       (save_node (one_slot (ex_slot True ''123:foo'' (8 / 10)) ''Single''))
       (two_slots (ex_slot False ''None'' 1) (ex_slot False ''None'' 1) ''Model & Clip''))) =
     [''base_model'', ''toggle_all'', ''lora_1'', ''add_lora'', ''mm_refresh'']"
  using serialization_round_trip[of
      "Obj (obj_of_slot \<lparr>on = True, lora = ''123:foo'', strength = 8 / 10, strengthTwo = Some 2\<rparr>)"
      "two_slots (ex_slot False ''None'' 1) (ex_slot False ''None'' 1) ''Model & Clip''"]
  by (simp add: serializeValue_def obj_of_slot_def AList.delete_eq configure_widgets
      two_slots_def restored_widgets_def save_node_def one_slot_def slot_values_def
      getLoraWidgets_def isDualMode_def ex_slot_def has_key_def dec_1)

section \<open>Renumbering invariant\<close>

lemma is_lora_is_slot: "is_lora w \<Longrightarrow> is_slot w"
  by (cases w) simp_all

lemma all_lora_filter: "all_lora ws \<Longrightarrow> filter is_slot ws = filter is_lora ws"
  unfolding all_lora_def list_all_iff by (rule filter_cong) (auto dest: is_lora_is_slot)

lemma no_slot_no_lora: "filter is_slot ws = [] \<Longrightarrow> filter is_lora ws = []"
  by (auto simp: filter_empty_conv dest: is_lora_is_slot)

lemma lora_names_Suc: "lora_names (Suc n) = lora_names n @ [''lora_'' @ dec (n + 1)]"
  by (simp add: lora_names_def)

lemma length_lora_names [simp]: "length (lora_names n) = n"
  by (simp add: lora_names_def)

subsection \<open>Renumbering\<close>

lemma renumber_is_slot: "map is_slot (renumber_from i ws) = map is_slot ws"
  by (induction i ws rule: renumber_from.induct) simp_all

lemma renumber_is_lora: "map is_lora (renumber_from i ws) = map is_lora ws"
  by (induction i ws rule: renumber_from.induct) simp_all

lemma renumber_button: "map (\<lambda>w. w = AddLora) (renumber_from i ws) = map (\<lambda>w. w = AddLora) ws"
  by (induction i ws rule: renumber_from.induct) simp_all

lemma filter_empty_map: "map P xs = map Q ys \<Longrightarrow> (filter P xs = []) = (filter Q ys = [])"
proof (induction xs arbitrary: ys)
  case Nil
  then show ?case by simp
next
  case (Cons x xs)
  then obtain y ys' where "ys = y # ys'" by (cases ys) auto
  with Cons show ?case by auto
qed

lemma length_filter_map: "map P xs = map Q ys \<Longrightarrow> length (filter P xs) = length (filter Q ys)"
proof (induction xs arbitrary: ys)
  case Nil
  then show ?case by simp
next
  case (Cons x xs)
  then obtain y ys' where "ys = y # ys'" by (cases ys) auto
  with Cons show ?case by auto
qed

lemma renumber_all_lora: "all_lora (renumber_from i ws) = all_lora ws"
  unfolding all_lora_def by (induction i ws rule: renumber_from.induct) simp_all

lemma renumber_slots_before: "slots_before_button (renumber_from i ws) = slots_before_button ws"
  unfolding slots_before_button_def
proof (induction ws arbitrary: i)
  case Nil
  then show ?case by simp
next
  case (Cons w ws)
  show ?case
  proof (cases w)
    case (LoraSlot n v)
    then show ?thesis using Cons[of i] Cons[of "i + 1"] by simp
  next
    case ToggleAll
    then show ?thesis using Cons[of i] by simp
  next
    case AddLora
    then show ?thesis using filter_empty_map[OF renumber_is_slot, of i ws] by simp
  next
    case (Host n)
    then show ?thesis using Cons[of i] by simp
  qed
qed

lemma upt_shift: "[i..<i + Suc m] = i # [Suc i..<Suc i + m]"
  by (simp add: upt_conv_Cons)

lemma renumber_names:
  "map wname (filter is_lora (renumber_from i ws)) =
     map (\<lambda>j. ''lora_'' @ dec (j + 1)) [i..<i + length (filter is_lora ws)]"
proof (induction i ws rule: renumber_from.induct)
  case (2 i n v ws)
  show ?case
  proof (cases "prefix ''lora_'' n")
    case True
    have "map wname (filter is_lora (renumber_from i (LoraSlot n v # ws))) =
        (''lora_'' @ dec (i + 1)) # map wname (filter is_lora (renumber_from (i + 1) ws))"
      using True by simp
    also have "\<dots> = (''lora_'' @ dec (i + 1)) #
        map (\<lambda>j. ''lora_'' @ dec (j + 1)) [i + 1..<i + 1 + length (filter is_lora ws)]"
      using 2(1)[OF True] by simp
    also have "\<dots> = map (\<lambda>j. ''lora_'' @ dec (j + 1)) [i..<i + Suc (length (filter is_lora ws))]"
      unfolding upt_shift by simp
    finally show ?thesis using True by simp
  next
    case False
    then show ?thesis using 2 by simp
  qed
qed simp_all

lemma well_numbered_renumber:
  assumes "all_lora ws" "slots_before_button ws"
  shows "well_numbered (renumber_from 0 ws)"
proof -
  have "length (filter is_lora (renumber_from 0 ws)) = length (filter is_lora ws)"
    by (rule length_filter_map[OF renumber_is_lora])
  then show ?thesis
    using assms by (simp add: well_numbered_def renumber_all_lora renumber_slots_before
        renumber_names lora_names_def)
qed


subsection \<open>The Add button\<close>

lemma not_button_sym: "AddLora \<notin> set (a # ws) \<Longrightarrow> a \<noteq> AddLora \<and> AddLora \<notin> set ws"
  by (metis list.set_intros(1,2))

lemma dropWhile_no_button: "AddLora \<notin> set ws \<Longrightarrow> dropWhile (\<lambda>w. w \<noteq> AddLora) ws = []"
proof (induction ws)
  case Nil
  then show ?case by simp
next
  case (Cons a ws)
  from not_button_sym[OF Cons.prems] Cons.IH show ?case by simp
qed

lemma no_button: "AddLora \<notin> set ws \<Longrightarrow> slots_before_button ws"
  by (simp add: slots_before_button_def dropWhile_no_button)

lemma dropWhile_button:
  "AddLora \<notin> set pre \<Longrightarrow> dropWhile (\<lambda>w. w \<noteq> AddLora) (pre @ AddLora # post) = AddLora # post"
proof (induction pre)
  case Nil
  then show ?case by simp
next
  case (Cons a pre)
  from not_button_sym[OF Cons.prems] Cons.IH show ?case by simp
qed

lemma slots_before_split:
  "AddLora \<notin> set pre \<Longrightarrow>
     slots_before_button (pre @ AddLora # post) = (filter is_slot post = [])"
  by (simp add: slots_before_button_def dropWhile_button)

lemma button_index_split:
  "AddLora \<notin> set pre \<Longrightarrow> button_index (pre @ AddLora # post) = Some (length pre)"
proof (induction pre)
  case Nil
  then show ?case by simp
next
  case (Cons a pre)
  from not_button_sym[OF Cons.prems] Cons.IH show ?case by simp
qed

lemma button_index_none: "AddLora \<notin> set ws \<Longrightarrow> button_index ws = None"
proof (induction ws)
  case Nil
  then show ?case by simp
next
  case (Cons a ws)
  from not_button_sym[OF Cons.prems] Cons.IH show ?case by simp
qed

lemma lora_index_some:
  "lora_index k ws = Some idx \<Longrightarrow> idx < length ws \<and> is_lora (ws ! idx)"
proof (induction ws arbitrary: k idx)
  case Nil
  then show ?case by simp
next
  case (Cons w ws)
  show ?case
  proof (cases "is_lora w")
    case True
    show ?thesis
    proof (cases "k = 0")
      case True
      with \<open>is_lora w\<close> Cons.prems show ?thesis by simp
    next
      case False
      with \<open>is_lora w\<close> Cons.prems obtain j where "lora_index (k - 1) ws = Some j" "idx = Suc j"
        by auto
      with Cons.IH[of "k - 1" j] show ?thesis by simp
    qed
  next
    case False
    with Cons.prems obtain j where "lora_index k ws = Some j" "idx = Suc j" by auto
    with Cons.IH[of k j] show ?thesis by simp
  qed
qed

lemma no_slot_in_tail:
  assumes "filter is_slot post = []" "x \<in> set (AddLora # post)"
  shows "\<not> is_slot x"
proof
  assume s: "is_slot x"
  then have "x \<noteq> AddLora" by auto
  with assms(2) have "x \<in> set post" by simp
  with s have "x \<in> set (filter is_slot post)" by simp
  with assms(1) show False by simp
qed

lemma slot_before_button:
  assumes "filter is_slot post = []" "idx < length (pre @ AddLora # post)"
    "is_slot ((pre @ AddLora # post) ! idx)"
  shows "idx < length pre"
proof (rule ccontr)
  assume n: "\<not> idx < length pre"
  then have e: "(pre @ AddLora # post) ! idx = (AddLora # post) ! (idx - length pre)"
    by (simp add: nth_append)
  have "idx - length pre < length (AddLora # post)" using assms(2) n by simp
  then have "(AddLora # post) ! (idx - length pre) \<in> set (AddLora # post)" by (rule nth_mem)
  from no_slot_in_tail[OF assms(1) this] assms(3) show False unfolding e by blast
qed
subsection \<open>The operations keep the list well numbered\<close>

lemma all_lora_subset: "all_lora ws \<Longrightarrow> set ws' \<subseteq> set ws \<Longrightarrow> all_lora ws'"
  unfolding all_lora_def list_all_iff by blast

lemma set_remove_nth: "set (take i ws @ drop (Suc i) ws) \<subseteq> set ws"
  using set_take_subset[of i ws] set_drop_subset[of "Suc i" ws] by auto

lemma set_swap: "a < length ws \<Longrightarrow> b < length ws \<Longrightarrow> set (ws[a := ws ! b, b := ws ! a]) \<subseteq> set ws"
proof -
  assume a: "a < length ws" and b: "b < length ws"
  have "set (ws[a := ws ! b, b := ws ! a]) \<subseteq> insert (ws ! a) (set (ws[a := ws ! b]))"
    by (rule set_update_subset_insert)
  also have "\<dots> \<subseteq> insert (ws ! a) (insert (ws ! b) (set ws))"
    using set_update_subset_insert[of ws a "ws ! b"] by blast
  also have "\<dots> = set ws" using a b by auto
  finally show ?thesis .
qed

lemma remove_keeps_order:
  assumes "slots_before_button ws" "idx < length ws" "is_slot (ws ! idx)"
  shows "slots_before_button (take idx ws @ drop (Suc idx) ws)"
proof (cases "AddLora \<in> set ws")
  case False
  with set_remove_nth[of idx ws] have "AddLora \<notin> set (take idx ws @ drop (Suc idx) ws)" by blast
  then show ?thesis by (rule no_button)
next
  case True
  then obtain pre post where ws: "ws = pre @ AddLora # post" and pre: "AddLora \<notin> set pre"
    using split_list_first[of AddLora ws] by blast
  have post: "filter is_slot post = []"
    using assms(1) slots_before_split[OF pre, of post] ws by simp
  have i: "idx < length pre"
    using slot_before_button[OF post, of idx pre] assms(2,3) ws by simp
  have e: "take idx ws @ drop (Suc idx) ws = (take idx pre @ drop (Suc idx) pre) @ AddLora # post"
    using i ws by simp
  have n: "AddLora \<notin> set (take idx pre @ drop (Suc idx) pre)"
    using pre set_remove_nth[of idx pre] by blast
  show ?thesis unfolding e using slots_before_split[OF n, of post] post by blast
qed

lemma swap_keeps_order:
  assumes "slots_before_button ws" "a < length ws" "is_slot (ws ! a)"
    "b < length ws" "is_slot (ws ! b)"
  shows "slots_before_button (ws[a := ws ! b, b := ws ! a])"
proof (cases "AddLora \<in> set ws")
  case False
  with set_swap[OF assms(2,4)] have "AddLora \<notin> set (ws[a := ws ! b, b := ws ! a])" by blast
  then show ?thesis by (rule no_button)
next
  case True
  then obtain pre post where ws: "ws = pre @ AddLora # post" and pre: "AddLora \<notin> set pre"
    using split_list_first[of AddLora ws] by blast
  have post: "filter is_slot post = []"
    using assms(1) slots_before_split[OF pre, of post] ws by simp
  have a: "a < length pre"
    using slot_before_button[OF post, of a pre] assms(2,3) ws by simp
  have b: "b < length pre"
    using slot_before_button[OF post, of b pre] assms(4,5) ws by simp
  have "ws ! a = pre ! a" "ws ! b = pre ! b" using a b ws by (simp_all add: nth_append)
  then have "ws[a := ws ! b, b := ws ! a] = pre[a := pre ! b, b := pre ! a] @ AddLora # post"
    using a b ws by (simp add: list_update_append1)
  moreover have "AddLora \<notin> set (pre[a := pre ! b, b := pre ! a])"
    using pre set_swap[OF a b] by blast
  ultimately show ?thesis using slots_before_split post by simp
qed

lemma well_numbered_renumber_node:
  "all_lora (widgets nd) \<Longrightarrow> slots_before_button (widgets nd) \<Longrightarrow>
     well_numbered (widgets (renumberLoraWidgets nd))"
  by (simp add: renumberLoraWidgets_def well_numbered_renumber)

lemma op_remove_inv:
  assumes "well_numbered (widgets nd)"
  shows "well_numbered (widgets (op_remove k nd))"
proof (cases "k < length (getLoraWidgets nd)")
  case False
  then show ?thesis using assms by (simp add: op_remove_def)
next
  case True
  from assms have al: "all_lora (widgets nd)" and sb: "slots_before_button (widgets nd)"
    by (simp_all add: well_numbered_def)
  show ?thesis
  proof (cases "lora_index k (widgets nd)")
    case None
    then show ?thesis using True well_numbered_renumber_node[OF al sb] by (simp add: op_remove_def)
  next
    case (Some idx)
    from lora_index_some[OF Some] have i: "idx < length (widgets nd)" "is_slot (widgets nd ! idx)"
      by (simp_all add: is_lora_is_slot)
    let ?ws = "take idx (widgets nd) @ drop (Suc idx) (widgets nd)"
    have "all_lora ?ws" by (rule all_lora_subset[OF al set_remove_nth])
    moreover have "slots_before_button ?ws" by (rule remove_keeps_order[OF sb i])
    ultimately have "well_numbered (widgets (renumberLoraWidgets (nd\<lparr>widgets := ?ws\<rparr>)))"
      using well_numbered_renumber_node[of "nd\<lparr>widgets := ?ws\<rparr>"] by simp
    then show ?thesis using True Some by (simp add: op_remove_def)
  qed
qed

lemma swap_slots_inv:
  assumes "well_numbered (widgets nd)"
  shows "well_numbered (widgets (swap_slots k nd))"
proof (cases "lora_index k (widgets nd)")
  case None
  then show ?thesis using assms by (simp add: swap_slots_def)
next
  case (Some a)
  note A = Some
  show ?thesis
  proof (cases "lora_index (k + 1) (widgets nd)")
    case None
    then show ?thesis using assms A by (simp add: swap_slots_def)
  next
    case (Some b)
    from assms have al: "all_lora (widgets nd)" and sb: "slots_before_button (widgets nd)"
      by (simp_all add: well_numbered_def)
    from lora_index_some[OF A] have a: "a < length (widgets nd)" "is_slot (widgets nd ! a)"
      by (simp_all add: is_lora_is_slot)
    from lora_index_some[OF Some] have b: "b < length (widgets nd)" "is_slot (widgets nd ! b)"
      by (simp_all add: is_lora_is_slot)
    let ?ws = "(widgets nd)[a := widgets nd ! b, b := widgets nd ! a]"
    have "all_lora ?ws" by (rule all_lora_subset[OF al set_swap[OF a(1) b(1)]])
    moreover have "slots_before_button ?ws" by (rule swap_keeps_order[OF sb a b])
    ultimately have "well_numbered (widgets (renumberLoraWidgets (nd\<lparr>widgets := ?ws\<rparr>)))"
      using well_numbered_renumber_node[of "nd\<lparr>widgets := ?ws\<rparr>"] by simp
    then show ?thesis using A Some by (simp add: swap_slots_def Let_def)
  qed
qed

lemma op_add_inv:
  assumes "well_numbered (widgets nd)"
  shows "well_numbered (widgets (op_add name nd))"
proof (cases "AddLora \<in> set (widgets nd)")
  case False
  then show ?thesis using assms by (simp add: op_add_def button_index_none)
next
  case True
  then obtain pre post where ws: "widgets nd = pre @ AddLora # post" and pre: "AddLora \<notin> set pre"
    using split_list_first[of AddLora "widgets nd"] by blast
  from assms have al: "all_lora (widgets nd)" and sb: "slots_before_button (widgets nd)"
    and nm: "map wname (filter is_lora (widgets nd)) =
             lora_names (length (filter is_lora (widgets nd)))"
    by (simp_all add: well_numbered_def)
  have post: "filter is_slot post = []" using sb slots_before_split[OF pre, of post] ws by simp
  then have postl: "filter is_lora post = []" by (rule no_slot_no_lora)
  define N where "N = length (filter is_lora pre)"
  have fl: "filter is_lora (widgets nd) = filter is_lora pre" using ws postl by simp
  define newW where "newW = LoraSlot (''lora_'' @ dec (N + 1))
      (Obj [(''on'', JBool (name \<noteq> ''None'')), (''lora'', JStr name), (''strength'', JNum 1),
            (''strengthTwo'', (if isDualMode nd then JNum 1 else JNull))])"
  have w: "widgets (op_add name nd) = (pre @ [newW]) @ AddLora # post"
    using ws pre fl
    by (simp add: op_add_def button_index_split addLoraSlot_def Let_def getLoraWidgets_def
        createLoraWidget_def newW_def N_def)
  have nl: "is_lora newW" "is_slot newW" "newW \<noteq> AddLora" "wname newW = ''lora_'' @ dec (N + 1)"
    by (simp_all add: newW_def)
  have 1: "all_lora (widgets (op_add name nd))"
    using al ws nl unfolding w all_lora_def by simp
  have 2: "map wname (filter is_lora (widgets (op_add name nd))) =
      lora_names (length (filter is_lora (widgets (op_add name nd))))"
    using nm fl nl postl unfolding w by (simp add: N_def lora_names_Suc)
  have "AddLora \<notin> set (pre @ [newW])" using pre nl by auto
  from slots_before_split[OF this, of post] post
  have 3: "slots_before_button (widgets (op_add name nd))" unfolding w by simp
  show ?thesis using 1 2 3 by (simp add: well_numbered_def)
qed

lemma apply_op_inv: "well_numbered (widgets nd) \<Longrightarrow> well_numbered (widgets (apply_op x nd))"
  by (cases x) (simp_all add: op_add_inv op_remove_inv swap_slots_inv op_move_up_def op_move_down_def)

lemma apply_ops_inv: "well_numbered (widgets nd) \<Longrightarrow> well_numbered (widgets (apply_ops xs nd))"
  by (induction xs arbitrary: nd) (simp_all add: apply_op_inv)


subsection \<open>Distinct names and the two start states\<close>

lemma digit_inj: "a < 10 \<Longrightarrow> b < 10 \<Longrightarrow> digit a = digit b \<Longrightarrow> a = b"
  unfolding digit_def by (subst (asm) nth_eq_iff_index_eq) simp_all

lemma dec_nonempty: "dec n \<noteq> []"
  by (subst dec.simps) simp

lemma dec_inj: "dec m = dec n \<Longrightarrow> m = n"
proof (induction m arbitrary: n rule: dec.induct)
  case (1 m)
  show ?case
  proof (cases "m < 10")
    case True
    note m = True
    show ?thesis
    proof (cases "n < 10")
      case True
      with m 1(2) have "digit m = digit n" by (simp add: dec.simps)
      with m True show ?thesis by (rule digit_inj)
    next
      case False
      with m 1(2) have "[digit m] = dec (n div 10) @ [digit (n mod 10)]"
        by (simp add: dec.simps[of m] dec.simps[of n])
      then have "dec (n div 10) = []" by simp
      with dec_nonempty show ?thesis by blast
    qed
  next
    case False
    note m = False
    show ?thesis
    proof (cases "n < 10")
      case True
      with m 1(2) have "dec (m div 10) @ [digit (m mod 10)] = [digit n]"
        by (simp add: dec.simps[of m] dec.simps[of n])
      then have "dec (m div 10) = []" by simp
      with dec_nonempty show ?thesis by blast
    next
      case False
      with m 1(2) have "dec (m div 10) @ [digit (m mod 10)] = dec (n div 10) @ [digit (n mod 10)]"
        by (simp add: dec.simps[of m] dec.simps[of n])
      then have d: "dec (m div 10) = dec (n div 10)" and r: "digit (m mod 10) = digit (n mod 10)"
        by simp_all
      from 1(1)[OF m d] have "m div 10 = n div 10" .
      moreover have "m mod 10 = n mod 10" by (rule digit_inj[OF _ _ r]) simp_all
      ultimately show ?thesis by (metis div_mult_mod_eq)
    qed
  qed
qed

lemma distinct_lora_names: "distinct (lora_names N)"
  unfolding lora_names_def by (auto simp: distinct_map inj_on_def dest: dec_inj)

lemma map_enumerate_fst: "map (\<lambda>x. f (fst x)) (enumerate n xs) = map f [n..<n + length xs]"
proof (induction xs arbitrary: n)
  case Nil
  then show ?case by simp
next
  case (Cons x xs)
  have "[n..<n + length (x # xs)] = n # [Suc n..<Suc n + length xs]"
    using upt_shift[of n "length xs"] by simp
  then show ?case using Cons[of "Suc n"] by simp
qed

lemma restored_names:
  "map wname (restored_widgets svs) = lora_names (length (restored_widgets svs))"
proof (cases "svs = []")
  case True
  then show ?thesis by (simp add: restored_widgets_def lora_names_def)
next
  case False
  have "map wname (map (\<lambda>(i, sv). LoraSlot (''lora_'' @ dec (i + 1)) (Obj (restored_slot sv)))
            (enumerate 0 svs)) = map (\<lambda>x. ''lora_'' @ dec (fst x + 1)) (enumerate 0 svs)"
    by (simp add: case_prod_beta comp_def)
  also have "\<dots> = map (\<lambda>i. ''lora_'' @ dec (i + 1)) [0..<0 + length svs]"
    by (rule map_enumerate_fst)
  finally show ?thesis using False by (simp add: restored_widgets_def lora_names_def)
qed

lemma configure_inv: "well_numbered (widgets (configure saved nd))"
proof -
  let ?keep = "filter (\<lambda>w. \<not> dynamic w \<and> \<not> (wname w = ''mm_auth'' \<or> wname w = ''mm_refresh'')) (widgets nd)"
  let ?trail = "filter (\<lambda>w. \<not> dynamic w \<and> (wname w = ''mm_auth'' \<or> wname w = ''mm_refresh'')) (widgets nd)"
  let ?r = "restored_widgets (filter slot_shaped (widgets_values saved))"
  have w: "widgets (configure saved nd) = (?keep @ [ToggleAll] @ ?r) @ AddLora # ?trail"
    by (simp add: configure_widgets)
  have k: "\<forall>x \<in> set ?keep. \<not> is_slot x \<and> x \<noteq> AddLora" "\<forall>x \<in> set ?trail. \<not> is_slot x"
    by (auto dest: not_dynamic_not_slot)
  have r: "\<forall>x \<in> set ?r. is_lora x \<and> x \<noteq> AddLora"
    by (auto simp: restored_widgets_def)
  have 1: "all_lora (widgets (configure saved nd))"
    unfolding w all_lora_def list_all_iff using k r by auto
  have 2: "map wname (filter is_lora (widgets (configure saved nd))) =
      lora_names (length (filter is_lora (widgets (configure saved nd))))"
    by (simp add: configure_slots restored_names)
  have "AddLora \<notin> set (?keep @ [ToggleAll] @ ?r)" using k r by auto
  from slots_before_split[OF this, of ?trail]
  have 3: "slots_before_button (widgets (configure saved nd))"
    unfolding w using k(2) by (auto simp: filter_empty_conv)
  show ?thesis using 1 2 3 by (simp add: well_numbered_def)
qed

lemma created_inv: "well_numbered (widgets (onNodeCreated c hs))"
proof -
  let ?hosts = "filter (\<lambda>w. wname w = ''model'' \<or> wname w = ''clip'' \<or> wname w = ''mm_auth'' \<or>
                 wname w = ''mm_refresh'') (map Host hs)"
  let ?s = "LoraSlot (''lora_'' @ dec 1) (Obj default_slot)"
  let ?post = "[Host (if c then ''Model Manager: Connected'' else ''Connect to Model Manager''),
      Host ''mm_refresh'']"
  have w: "widgets (onNodeCreated c hs) = (?hosts @ [Host ''base_model'', ToggleAll, ?s]) @ AddLora # ?post"
    by (simp add: created_widgets)
  have h: "\<forall>x \<in> set ?hosts. \<not> is_slot x \<and> \<not> is_lora x \<and> x \<noteq> AddLora" by auto
  have 1: "all_lora (widgets (onNodeCreated c hs))"
    unfolding w all_lora_def list_all_iff using h by auto
  have "filter is_lora (widgets (onNodeCreated c hs)) = [?s]"
    by (simp add: created_widgets filter_hosts)
  then have 2: "map wname (filter is_lora (widgets (onNodeCreated c hs))) =
      lora_names (length (filter is_lora (widgets (onNodeCreated c hs))))"
    by (simp add: lora_names_def)
  have "AddLora \<notin> set (?hosts @ [Host ''base_model'', ToggleAll, ?s])" using h by auto
  from slots_before_split[OF this, of ?post]
  have 3: "slots_before_button (widgets (onNodeCreated c hs))" unfolding w by simp
  show ?thesis using 1 2 3 by (simp add: well_numbered_def)
qed

lemma well_numbered_names:
  assumes "well_numbered ws"
  shows "map wname (filter is_slot ws) = lora_names (length (filter is_slot ws))"
  using assms all_lora_filter[of ws] by (simp add: well_numbered_def)

text \<open>
  Claim C7. After any finite sequence of Add, Remove, MoveUp and MoveDown, from a freshly
  created node or from a node restored by \<open>configure\<close> (with any saved state, into any node),
  the slot widgets are named \<open>lora_1\<close>, ..., \<open>lora_N\<close> in display order, \<open>N\<close> being their number;
  they are exactly the widgets \<open>getLoraWidgets\<close> returns, and the names \<open>lora_1\<close>, ..., \<open>lora_N\<close> are
  pairwise distinct for every \<open>N\<close>.
\<close>

theorem renumbering_invariant:
  "map wname (filter is_slot (widgets (apply_ops xs (onNodeCreated c hs)))) =
     lora_names (length (filter is_slot (widgets (apply_ops xs (onNodeCreated c hs))))) \<and>
   map wname (filter is_slot (widgets (apply_ops xs (configure saved nd)))) =
     lora_names (length (filter is_slot (widgets (apply_ops xs (configure saved nd))))) \<and>
   getLoraWidgets (apply_ops xs (onNodeCreated c hs)) =
     filter is_slot (widgets (apply_ops xs (onNodeCreated c hs))) \<and>
   getLoraWidgets (apply_ops xs (configure saved nd)) =
     filter is_slot (widgets (apply_ops xs (configure saved nd))) \<and>
   distinct (lora_names N)"
proof -
  have a: "well_numbered (widgets (apply_ops xs (onNodeCreated c hs)))"
    by (rule apply_ops_inv[OF created_inv])
  have b: "well_numbered (widgets (apply_ops xs (configure saved nd)))"
    by (rule apply_ops_inv[OF configure_inv])
  have g: "getLoraWidgets n = filter is_slot (widgets n)" if "well_numbered (widgets n)" for n
    using that all_lora_filter[of "widgets n"] by (simp add: getLoraWidgets_def well_numbered_def)
  show ?thesis
    using well_numbered_names[OF a] well_numbered_names[OF b] g[OF a] g[OF b] distinct_lora_names
    by blast
qed


theorem renumbering_invariant_witness:
  "map wname (filter is_slot (widgets (apply_ops
      [Add ''123:foo'', Add ''None'', MoveUp 2, Remove 0, MoveDown 0] (onNodeCreated False [])))) =
     [''lora_1'', ''lora_2''] \<and>
   map wname (widgets (apply_ops [Add ''123:foo'', Add ''None'', MoveUp 2, Remove 0, MoveDown 0]
      (onNodeCreated False []))) =
     [''base_model'', ''toggle_all'', ''lora_1'', ''lora_2'', ''add_lora'',
      ''Connect to Model Manager'', ''mm_refresh''] \<and>
   map (\<lambda>v. wprop v ''lora'') (slot_values (apply_ops
      [Add ''123:foo'', Add ''None'', MoveUp 2, Remove 0, MoveDown 0] (onNodeCreated False []))) =
     [JStr ''123:foo'', JStr ''None'']"
proof -
  have 1: "length (filter is_slot (widgets (apply_ops
      [Add ''123:foo'', Add ''None'', MoveUp 2, Remove 0, MoveDown 0] (onNodeCreated False [])))) = 2"
    by code_simp
  have 2: "lora_names 2 = [''lora_1'', ''lora_2'']"
    by code_simp
  have 3: "map wname (widgets (apply_ops [Add ''123:foo'', Add ''None'', MoveUp 2, Remove 0, MoveDown 0]
      (onNodeCreated False []))) =
     [''base_model'', ''toggle_all'', ''lora_1'', ''lora_2'', ''add_lora'',
      ''Connect to Model Manager'', ''mm_refresh'']"
    by code_simp
  have 4: "map (\<lambda>v. wprop v ''lora'') (slot_values (apply_ops
      [Add ''123:foo'', Add ''None'', MoveUp 2, Remove 0, MoveDown 0] (onNodeCreated False []))) =
     [JStr ''123:foo'', JStr ''None'']"
    by code_simp
  from renumbering_invariant[of "[Add ''123:foo'', Add ''None'', MoveUp 2, Remove 0, MoveDown 0]"
      False "[]"]
  have "map wname (filter is_slot (widgets (apply_ops
      [Add ''123:foo'', Add ''None'', MoveUp 2, Remove 0, MoveDown 0] (onNodeCreated False [])))) =
     lora_names 2" unfolding 1 by blast
  with 2 3 4 show ?thesis by simp
qed


end
